theory Spec2Isabelle
  imports Main "HOL-Library.Sublist"
begin

section \<open>Strings\<close>

text \<open>
  Go strings are byte sequences; they are modelled as \<open>string\<close>. \<open>Split\<close> is
  \<open>strings.Split\<close> for a separator of one byte: it cuts at every occurrence of the
  separator and always returns at least one piece (the empty string gives one empty piece).
\<close>

definition NL :: char where
  "NL = CHR 0x0A"

fun Split :: "char \<Rightarrow> string \<Rightarrow> string list" where
  "Split sep [] = [[]]"
| "Split sep (x # xs) =
     (if x = sep then [] # Split sep xs
      else (case Split sep xs of [] \<Rightarrow> [[x]] | l # ls \<Rightarrow> (x # l) # ls))"

definition HasPrefix :: "string \<Rightarrow> string \<Rightarrow> bool" where
  "HasPrefix s pre = prefix pre s"

section \<open>The incremental update engine (internal/command/command.go)\<close>

subsection \<open>Commit messages\<close>

text \<open>
  \<open>object.Commit\<close> of go-git, reduced to the two fields the engine reads: the hash (as
  the hexadecimal string \<open>Hash.String()\<close> returns) and the message.
\<close>

record Commit =
  Hash :: string
  Message :: string

definition PiperPrefix :: string where
  "PiperPrefix = ''PiperOrigin-RevId: ''"

definition sourceLink :: "Commit \<Rightarrow> string" where
  "sourceLink commit =
     ''Source-Link: https://github.com/googleapis/googleapis/commit/'' @ Hash commit"

text \<open>
  The three accumulators of \<open>createCommitMessage\<close>: the string builder, the
  \<open>PiperOrigin-RevId\<close> lines and the \<open>Source-Link\<close> lines.
\<close>

record msg_acc =
  builder :: string
  piperRevIdLines :: "string list"
  sourceLinkLines :: "string list"

text \<open>The inner loop over the lines of one commit message.\<close>

fun consumeLines :: "string list \<Rightarrow> msg_acc \<Rightarrow> msg_acc" where
  "consumeLines [] acc = acc"
| "consumeLines (line # rest) acc =
     (if HasPrefix line PiperPrefix
      then consumeLines rest (acc\<lparr>piperRevIdLines := piperRevIdLines acc @ [line]\<rparr>)
      else consumeLines rest (acc\<lparr>builder := builder acc @ line @ [NL]\<rparr>))"

text \<open>
  The outer loop runs \<open>i\<close> from \<open>len(commits) - 1\<close> down to \<open>0\<close>: \<open>consumeCommits\<close>
  is given the commits still to be consumed in the order the loop visits them, that is,
  the reversed list.
\<close>

fun consumeCommits :: "Commit list \<Rightarrow> msg_acc \<Rightarrow> msg_acc" where
  "consumeCommits [] acc = acc"
| "consumeCommits (commit # rest) acc =
     consumeCommits rest
       (consumeLines (Split NL (Message commit))
          (acc\<lparr>sourceLinkLines := sourceLinkLines acc @ [sourceLink commit]\<rparr>))"

fun writeLines :: "string list \<Rightarrow> string \<Rightarrow> string" where
  "writeLines [] b = b"
| "writeLines (l # ls) b = writeLines ls (b @ l @ [NL])"

definition createCommitMessage :: "Commit list \<Rightarrow> string" where
  "createCommitMessage commits =
     (let acc = consumeCommits (rev commits)
                  \<lparr>builder = [], piperRevIdLines = [], sourceLinkLines = []\<rparr>
      in writeLines (sourceLinkLines acc) (writeLines (piperRevIdLines acc) (builder acc)))"

text \<open>
  The message as the specification words it: the lines of three groups, each line ended
  by a newline. The commits are taken oldest first, which is the reverse of the
  newest-first list.
\<close>

definition messageLines :: "Commit \<Rightarrow> string list" where
  "messageLines commit = Split NL (Message commit)"

definition isTagLine :: "string \<Rightarrow> bool" where
  "isTagLine line = HasPrefix line PiperPrefix"

definition spec_nonTagLines :: "Commit list \<Rightarrow> string list" where
  "spec_nonTagLines commits =
     concat (map (\<lambda>c. filter (\<lambda>l. \<not> isTagLine l) (messageLines c)) (rev commits))"

definition spec_tagLines :: "Commit list \<Rightarrow> string list" where
  "spec_tagLines commits =
     concat (map (\<lambda>c. filter isTagLine (messageLines c)) (rev commits))"

definition spec_sourceLinkLines :: "Commit list \<Rightarrow> string list" where
  "spec_sourceLinkLines commits = map sourceLink (rev commits)"

definition joinLines :: "string list \<Rightarrow> string" where
  "joinLines ls = concat (map (\<lambda>l. l @ [NL]) ls)"

definition spec_commitMessage :: "Commit list \<Rightarrow> string" where
  "spec_commitMessage commits =
     joinLines (spec_nonTagLines commits @ spec_tagLines commits @ spec_sourceLinkLines commits)"

subsection \<open>Pipeline state\<close>

text \<open>
  Modelled from the spec: the package \<open>statepb\<close> (the generated protobuf types
  \<open>PipelineState\<close>, \<open>ApiGenerationState\<close> and \<open>AutomationLevel\<close>) is not among the
  sources. The specification gives a pipeline state an image tag and a list of records,
  each with an API identifier, an automation level (normal or blocked) and the last
  generated source commit; \<open>updateApi\<close> reads exactly these fields.
\<close>

datatype AutomationLevel = AUTOMATION_LEVEL_NORMAL | AUTOMATION_LEVEL_BLOCKED

record ApiGenerationState =
  Id_api :: string
  AutomationLevel :: AutomationLevel
  LastGeneratedCommit :: string

record PipelineState =
  ImageTag :: string
  ApiGenerationStates :: "ApiGenerationState list"

subsection \<open>The world the engine acts on\<close>

text \<open>
  Every call of \<open>updateApi\<close> that can change something outside the process (git, the
  generator container, the file system), the reset and the push are recorded in
  \<open>effects\<close> when they are made, whether they succeed or not; the queries
  (\<open>GetApiCommits\<close>, \<open>IsClean\<close>, \<open>HeadHash\<close>) and the calls of the setup of a run
  (cloning, opening, creating directories) are not. \<open>repoState\<close> is the
  \<open>*statepb.PipelineState\<close> held in memory; \<open>stateFile\<close> is the pipeline state that
  \<open>generator-input/pipeline-state.json\<close> encodes on disk.
\<close>

datatype effect =
    EMkdirAll string
  | EGenerate string
  | EClean string
  | ECopy string
  | ESaveState
  | EAddAll
  | ECommit string
  | EBuild string
  | EResetHard
  | EPush

datatype cmd_error =
    InvalidLanguage string
  | MissingGitHubToken
  | LanguageRepoNotClean
  | BuildCreatedChanges string
  | CallFailed string

record world =
  repoState :: PipelineState
  stateFile :: PipelineState
  effects :: "effect list"

text \<open>
  What the outside world answers to the calls of one \<open>updateApi\<close>: \<open>None\<close> (or
  \<open>Inr\<close>) is success, \<open>Some e\<close> (or \<open>Inl e\<close>) the error returned. \<open>r_AddAll\<close> is the
  working-tree status after staging (\<open>True\<close> when it is clean), \<open>r_IsClean\<close> the
  cleanliness of the language repository after the build.
\<close>

record api_calls =
  r_GetApiCommits :: "cmd_error + Commit list"
  r_MkdirAll :: "cmd_error option"
  r_Generate :: "cmd_error option"
  r_Clean :: "cmd_error option"
  r_CopyFS :: "cmd_error option"
  r_WriteState :: "cmd_error option"
  r_AddAll :: "cmd_error + bool"
  r_Commit :: "cmd_error option"
  r_Build :: "cmd_error option"
  r_IsClean :: "cmd_error + bool"

definition record_effect :: "effect \<Rightarrow> world \<Rightarrow> world" where
  "record_effect e w = w\<lparr>effects := effects w @ [e]\<rparr>"

text \<open>
  \<open>saveState\<close> marshals the in-memory state and writes the file. A failure (of the
  marshalling, the re-indenting or the write) is modelled as leaving the file as it was.
\<close>

definition saveState :: "cmd_error option \<Rightarrow> world \<Rightarrow> cmd_error option \<times> world" where
  "saveState r w =
     (case r of
        Some e \<Rightarrow> (Some e, record_effect ESaveState w)
      | None \<Rightarrow> (None, record_effect ESaveState (w\<lparr>stateFile := repoState w\<rparr>)))"

text \<open>\<open>commitAll\<close>: no commit is made if there are no file modifications.\<close>

definition commitAll :: "cmd_error + bool \<Rightarrow> cmd_error option \<Rightarrow> string \<Rightarrow> world
    \<Rightarrow> cmd_error option \<times> world" where
  "commitAll addAll commit msg w =
     (let w1 = record_effect EAddAll w in
      case addAll of
        Inl e \<Rightarrow> (Some e, w1)
      | Inr clean \<Rightarrow>
          if clean then (None, w1)
          else (commit, record_effect (ECommit msg) w1))"

text \<open>
  \<open>apiState\<close> points into \<open>repoState.ApiGenerationStates\<close>: the assignment to
  \<open>apiState.LastGeneratedCommit\<close> changes the element of the list held by
  \<open>repoState\<close>. The record is identified by its index \<open>i\<close> in that list.
\<close>

definition setLastGeneratedCommit :: "nat \<Rightarrow> string \<Rightarrow> world \<Rightarrow> world" where
  "setLastGeneratedCommit i h w =
     w\<lparr>repoState := (repoState w)\<lparr>ApiGenerationStates :=
          (ApiGenerationStates (repoState w))
            [i := (ApiGenerationStates (repoState w) ! i)\<lparr>LastGeneratedCommit := h\<rparr>]\<rparr>\<rparr>"

definition updateApi :: "string \<Rightarrow> api_calls \<Rightarrow> nat \<Rightarrow> world \<Rightarrow> cmd_error option \<times> world" where
  "updateApi apiPathFlag r i w =
     (let apiState = ApiGenerationStates (repoState w) ! i in
      if apiPathFlag \<noteq> [] \<and> apiPathFlag \<noteq> Id_api apiState then (None, w)
      else if AutomationLevel apiState = AUTOMATION_LEVEL_BLOCKED then (None, w)
      else
        (case r_GetApiCommits r of
           Inl e \<Rightarrow> (Some e, w)
         | Inr [] \<Rightarrow> (None, w)
         | Inr (newest # older) \<Rightarrow>
        (let w0 = record_effect (EMkdirAll (Id_api apiState)) w in
        (case r_MkdirAll r of
           Some e \<Rightarrow> (Some e, w0)
         | None \<Rightarrow>
        (let w1 = record_effect (EGenerate (Id_api apiState)) w0 in
        (case r_Generate r of
           Some e \<Rightarrow> (Some e, w1)
         | None \<Rightarrow>
        (let w2 = record_effect (EClean (Id_api apiState)) w1 in
        (case r_Clean r of
           Some e \<Rightarrow> (Some e, w2)
         | None \<Rightarrow>
        (let w3 = record_effect (ECopy (Id_api apiState)) w2 in
        (case r_CopyFS r of
           Some e \<Rightarrow> (Some e, w3)
         | None \<Rightarrow>
        (let w4 = setLastGeneratedCommit i (Hash newest) w3 in
        (case saveState (r_WriteState r) w4 of
           (Some e, w5) \<Rightarrow> (Some e, w5)
         | (None, w5) \<Rightarrow>
        (case commitAll (r_AddAll r) (r_Commit r) (createCommitMessage (newest # older)) w5 of
           (Some e, w6) \<Rightarrow> (Some e, w6)
         | (None, w6) \<Rightarrow>
        (let w7 = record_effect (EBuild (Id_api apiState)) w6 in
        (case r_Build r of
           Some e \<Rightarrow> (Some e, w7)
         | None \<Rightarrow>
        (case r_IsClean r of
           Inl e \<Rightarrow> (Some e, w7)
         | Inr clean \<Rightarrow>
             if \<not> clean then (Some (BuildCreatedChanges (Id_api apiState)), w7)
             else (None, w7)))))))))))))))))"

subsection \<open>The command \<open>update-apis\<close>\<close>

record flags =
  flagLanguage :: string
  flagPush :: bool
  flagGitHubToken :: string
  flagAPIRoot :: string
  flagOutput :: string
  flagRepoRoot :: string
  flagAPIPath :: string

definition supportedLanguages :: "string \<Rightarrow> bool" where
  "supportedLanguages l = (l = ''dotnet'' \<or> l = ''java'')"

text \<open>
  What the outside world answers to the calls \<open>CmdUpdateApis\<close> makes itself, in the
  order of the source. \<open>r_IsClean_apiRepo\<close> answers the \<open>IsClean\<close> call on the API
  repository opened from \<open>-api-root\<close>; \<open>r_IsClean_repoRoot\<close> answers the second
  \<open>IsClean\<close> call, made when \<open>-repo-root\<close> is given (the source passes the API
  repository to it as well).
\<close>

record run_calls =
  r_createTmpWorkingRoot :: "cmd_error option"
  r_cloneGoogleapis :: "cmd_error option"
  r_Abs_apiRoot :: "cmd_error option"
  r_Open_apiRepo :: "cmd_error option"
  r_IsClean_apiRepo :: "cmd_error + bool"
  r_Mkdir_output :: "cmd_error option"
  r_Abs_output :: "cmd_error option"
  r_cloneLanguageRepo :: "cmd_error option"
  r_Abs_repoRoot :: "cmd_error option"
  r_Open_languageRepo :: "cmd_error option"
  r_IsClean_repoRoot :: "cmd_error + bool"
  r_loadState :: "cmd_error option"
  r_CopyFS_generatorInput :: "cmd_error option"
  r_HeadHash_before :: "cmd_error + string"
  r_HeadHash_after :: "cmd_error + string"
  r_push :: "cmd_error option"

text \<open>
  The part of \<open>CmdUpdateApis\<close> that decides \<open>hardResetApiRepo\<close>: the API repository
  is cloned afresh when \<open>-api-root\<close> is empty; otherwise it is opened and its
  cleanliness is asked.
\<close>

definition openApiRepo :: "flags \<Rightarrow> run_calls \<Rightarrow> cmd_error + bool" where
  "openApiRepo f r =
     (if flagAPIRoot f = [] then
        (case r_cloneGoogleapis r of Some e \<Rightarrow> Inl e | None \<Rightarrow> Inr True)
      else
        (case r_Abs_apiRoot r of Some e \<Rightarrow> Inl e | None \<Rightarrow>
        (case r_Open_apiRepo r of Some e \<Rightarrow> Inl e | None \<Rightarrow>
        (case r_IsClean_apiRepo r of
           Inl e \<Rightarrow> Inl e
         | Inr clean \<Rightarrow> if \<not> clean then Inr False else Inr True))))"

definition chooseOutputDir :: "flags \<Rightarrow> run_calls \<Rightarrow> cmd_error option" where
  "chooseOutputDir f r = (if flagOutput f = [] then r_Mkdir_output r else r_Abs_output r)"

definition openLanguageRepo :: "flags \<Rightarrow> run_calls \<Rightarrow> cmd_error option" where
  "openLanguageRepo f r =
     (if flagRepoRoot f = [] then r_cloneLanguageRepo r
      else
        (case r_Abs_repoRoot r of Some e \<Rightarrow> Some e | None \<Rightarrow>
        (case r_Open_languageRepo r of Some e \<Rightarrow> Some e | None \<Rightarrow>
        (case r_IsClean_repoRoot r of
           Inl e \<Rightarrow> Some e
         | Inr clean \<Rightarrow> if \<not> clean then Some LanguageRepoNotClean else None))))"

text \<open>\<open>loadState\<close> reads and parses the state file into memory.\<close>

definition loadState :: "cmd_error option \<Rightarrow> world \<Rightarrow> cmd_error + world" where
  "loadState r w = (case r of Some e \<Rightarrow> Inl e | None \<Rightarrow> Inr (w\<lparr>repoState := stateFile w\<rparr>))"

text \<open>
  Everything before the loop: \<open>Inl\<close> is the error the command returns at once,
  \<open>Inr (hardResetApiRepo, w)\<close> the flag and the world with the state loaded.
\<close>

definition setupRun :: "flags \<Rightarrow> run_calls \<Rightarrow> world \<Rightarrow> cmd_error + (bool \<times> world)" where
  "setupRun f r w =
     (if \<not> supportedLanguages (flagLanguage f) then Inl (InvalidLanguage (flagLanguage f))
      else if flagPush f \<and> flagGitHubToken f = [] then Inl MissingGitHubToken
      else
        (case r_createTmpWorkingRoot r of Some e \<Rightarrow> Inl e | None \<Rightarrow>
        (case openApiRepo f r of Inl e \<Rightarrow> Inl e | Inr hardResetApiRepo \<Rightarrow>
        (case chooseOutputDir f r of Some e \<Rightarrow> Inl e | None \<Rightarrow>
        (case openLanguageRepo f r of Some e \<Rightarrow> Inl e | None \<Rightarrow>
        (case loadState (r_loadState r) w of Inl e \<Rightarrow> Inl e | Inr w1 \<Rightarrow>
        (case r_CopyFS_generatorInput r of Some e \<Rightarrow> Inl e | None \<Rightarrow>
        (case r_HeadHash_before r of Inl e \<Rightarrow> Inl e | Inr hashBefore \<Rightarrow>
         Inr (hardResetApiRepo, w1)))))))))"

text \<open>
  The loop over \<open>state.ApiGenerationStates\<close>: \<open>updateApis\<close> is given the indices
  still to visit; \<open>calls i\<close> are the answers to the calls made for the \<open>i\<close>-th record.
  The first error ends the loop and the command.
\<close>

fun updateApis :: "string \<Rightarrow> (nat \<Rightarrow> api_calls) \<Rightarrow> nat list \<Rightarrow> world \<Rightarrow> cmd_error option \<times> world" where
  "updateApis path calls [] w = (None, w)"
| "updateApis path calls (i # rest) w =
     (case updateApi path (calls i) i w of
        (Some e, w') \<Rightarrow> (Some e, w')
      | (None, w') \<Rightarrow> updateApis path calls rest w')"

text \<open>
  After the loop: the reset, whose result the source discards, and the push.
\<close>

definition finishRun :: "flags \<Rightarrow> run_calls \<Rightarrow> bool \<Rightarrow> world \<Rightarrow> cmd_error option \<times> world" where
  "finishRun f r hardResetApiRepo w =
     (let w1 = (if hardResetApiRepo then record_effect EResetHard w else w) in
      if \<not> flagPush f then (None, w1)
      else
        case r_HeadHash_after r of
          Inl e \<Rightarrow> (Some e, w1)
        | Inr hashAfter \<Rightarrow>
            if r_HeadHash_before r = Inr hashAfter then (None, w1)
            else (r_push r, record_effect EPush w1))"

definition CmdUpdateApis :: "flags \<Rightarrow> run_calls \<Rightarrow> (nat \<Rightarrow> api_calls) \<Rightarrow> world
    \<Rightarrow> cmd_error option \<times> world" where
  "CmdUpdateApis f r calls w =
     (case setupRun f r w of
        Inl e \<Rightarrow> (Some e, w)
      | Inr (hardResetApiRepo, w1) \<Rightarrow>
          (case updateApis (flagAPIPath f) calls
                  [0 ..< length (ApiGenerationStates (repoState w1))] w1 of
             (Some e, w2) \<Rightarrow> (Some e, w2)
           | (None, w2) \<Rightarrow> finishRun f r hardResetApiRepo w2))"

section \<open>Configuration and the one-shot generation (internal/config, internal/librarian)\<close>

subsection \<open>More string functions\<close>

text \<open>
  \<open>ReplaceAll\<close> is \<open>strings.ReplaceAll\<close> for a pattern and a replacement of one byte
  each. \<open>Join_str\<close> is \<open>strings.Join\<close>.

  \<open>TrimSpace\<close> is \<open>strings.TrimSpace\<close>: it removes the leading and the trailing
  white space, as \<open>unicode.IsSpace\<close> defines it, of a string that Go reads as UTF-8.
  The white space is the six ASCII characters of \<open>asciiSpace\<close> and the code points
  U+0085, U+00A0, U+1680, U+2000 to U+200A, U+2028, U+2029, U+202F, U+205F and U+3000,
  whose UTF-8 encodings \<open>unicodeSpaces\<close> lists. A string begins with a white-space rune
  exactly when it begins with one of these encodings (other bytes decode to another rune
  or to the error rune), and it ends with one exactly when it ends with one of them.
  \<open>spaceLen\<close> is the width of the white-space rune at the start of a string, \<open>0\<close>
  when there is none.
\<close>

definition ReplaceAll :: "string \<Rightarrow> char \<Rightarrow> char \<Rightarrow> string" where
  "ReplaceAll s old new = map (\<lambda>c. if c = old then new else c) s"

definition asciiSpace :: "char \<Rightarrow> bool" where
  "asciiSpace c = (c \<in> set [CHR 0x09, CHR 0x0A, CHR 0x0B, CHR 0x0C, CHR 0x0D, CHR 0x20])"

definition unicodeSpaces :: "string list" where
  "unicodeSpaces =
     [[CHR 0xC2, CHR 0x85], [CHR 0xC2, CHR 0xA0], [CHR 0xE1, CHR 0x9A, CHR 0x80],
      [CHR 0xE2, CHR 0x80, CHR 0x80], [CHR 0xE2, CHR 0x80, CHR 0x81],
      [CHR 0xE2, CHR 0x80, CHR 0x82], [CHR 0xE2, CHR 0x80, CHR 0x83],
      [CHR 0xE2, CHR 0x80, CHR 0x84], [CHR 0xE2, CHR 0x80, CHR 0x85],
      [CHR 0xE2, CHR 0x80, CHR 0x86], [CHR 0xE2, CHR 0x80, CHR 0x87],
      [CHR 0xE2, CHR 0x80, CHR 0x88], [CHR 0xE2, CHR 0x80, CHR 0x89],
      [CHR 0xE2, CHR 0x80, CHR 0x8A], [CHR 0xE2, CHR 0x80, CHR 0xA8],
      [CHR 0xE2, CHR 0x80, CHR 0xA9], [CHR 0xE2, CHR 0x80, CHR 0xAF],
      [CHR 0xE2, CHR 0x81, CHR 0x9F], [CHR 0xE3, CHR 0x80, CHR 0x80]]"

definition spaceLen :: "string list \<Rightarrow> string \<Rightarrow> nat" where
  "spaceLen encodings s =
     (case s of
        [] \<Rightarrow> 0
      | c # rest \<Rightarrow>
          if asciiSpace c then 1
          else (case find (\<lambda>w. prefix w s) encodings of None \<Rightarrow> 0 | Some w \<Rightarrow> length w))"

function trimSpaceLeft :: "string list \<Rightarrow> string \<Rightarrow> string" where
  "trimSpaceLeft encodings s =
     (if spaceLen encodings s = 0 then s
      else trimSpaceLeft encodings (drop (spaceLen encodings s) s))"
  by pat_completeness auto
termination
  by (relation "measure (\<lambda>(encodings, s). length s)") (auto simp: spaceLen_def split: list.splits)

definition TrimSpace :: "string \<Rightarrow> string" where
  "TrimSpace s =
     rev (trimSpaceLeft (map rev unicodeSpaces) (rev (trimSpaceLeft unicodeSpaces s)))"

fun Join_str :: "string list \<Rightarrow> string \<Rightarrow> string" where
  "Join_str [] sep = []"
| "Join_str [x] sep = x"
| "Join_str (x # y # rest) sep = x @ sep @ Join_str (y # rest) sep"

subsection \<open>Configuration types\<close>

text \<open>
  The structs of \<open>internal/config\<close>, with the fields that resolution and library
  selection read or write; fields that no function below touches are left out. A pointer
  that may be nil is an \<open>option\<close>; a Go map is a partial function. Field names that
  occur in several structs carry a suffix for all but the \<open>Library\<close>.

  A Go slice is a list, with one exception. \<open>fillPython\<close> appends to the slice
  \<open>CommonGAPICPaths\<close> of the default section, and \<open>append\<close> writes into the backing
  array of that slice when its capacity suffices; the libraries then share that array.
  So the default section carries, next to the elements of the slice, the rest of its
  backing array (\<open>CommonGAPICPaths_spare\<close>, capacity minus length elements), and the
  slice of a library is either a list of its own (\<open>Own\<close>) or the first \<open>n\<close> elements
  of the backing array of the default section (\<open>OfDefault n\<close>). \<open>readPaths\<close> reads
  such a slice. The slices that a configuration gives to different libraries are taken
  not to share memory with one another.
\<close>

record API =
  Path :: string

record JavaDefault =
  FormatterJar :: string
  GeneratorJar :: string
  GRPCPlugin :: string

record JavaPackage = JavaDefault +
  SkipFormat :: bool

record RustPackageDependency =
  Name_dep :: string
  Ignore_dep :: bool
  Package_dep :: string
  Source_dep :: string
  Feature_dep :: string
  ForceUsed_dep :: bool
  UsedIf_dep :: string

record RustDefault =
  PackageDependencies :: "RustPackageDependency list"
  DisabledRustdocWarnings :: "string list"
  GenerateSetterSamples :: string
  GenerateRpcSamples :: string

record RustModule =
  GenerateSetterSamples_mod :: string
  GenerateRpcSamples_mod :: string

record RustCrate = RustDefault +
  Modules :: "RustModule list"

record PythonDefault =
  CommonGAPICPaths :: "string list"
  CommonGAPICPaths_spare :: "string list"

datatype paths_slice = Own "string list" | OfDefault nat

record PythonPackage =
  CommonGAPICPaths_pkg :: paths_slice
  OptArgs :: "string list"

record DartPackage =
  APIKeysEnvironmentVariables :: string
  Dependencies :: string
  IssueTrackerURL :: string
  Packages :: "string \<rightharpoonup> string"
  Prefixes :: "string \<rightharpoonup> string"
  Protos :: "string \<rightharpoonup> string"
  Version_dart :: string

record Default =
  Keep_d :: "string list"
  Output_d :: string
  ReleaseLevel_d :: string
  Transport_d :: string
  Dart_d :: "DartPackage option"
  Java_d :: "JavaDefault option"
  Rust_d :: "RustDefault option"
  Python_d :: "PythonDefault option"

record Library =
  Name :: string
  Version :: string
  APIs :: "API list"
  Keep :: "string list"
  Output :: string
  ReleaseLevel :: string
  SkipGenerate :: bool
  Transport :: string
  Veneer :: bool
  Dart :: "DartPackage option"
  Java :: "JavaPackage option"
  Python :: "PythonPackage option"
  Rust :: "RustCrate option"

record Source =
  Commit_src :: string
  Dir_src :: string
  SHA256_src :: string

record Sources =
  Googleapis :: "Source option"

record Config =
  Language :: string
  Sources :: "Sources option"
  Default_cfg :: "Default option"
  Libraries :: "Library list"

datatype gen_error =
    ErrEmptySources
  | ErrMustSpecifyGoogleapis
  | ErrFetchFailed string
  | ErrVeneerRequiresOutput string
  | ErrNoLibrariesToGenerate
  | ErrSkipGenerate string
  | ErrLibraryNotFound string
  | ErrBackend string
  | PanicNilDereference

definition languageDart :: string where "languageDart = ''dart''"
definition languageFake :: string where "languageFake = ''fake''"
definition languageGo :: string where "languageGo = ''go''"
definition languageJava :: string where "languageJava = ''java''"
definition languageRust :: string where "languageRust = ''rust''"
definition languagePython :: string where "languagePython = ''python''"

subsection \<open>Naming conventions of the language packages\<close>

text \<open>
  The packages \<open>dart\<close>, \<open>rust\<close>, \<open>python\<close> and \<open>golang\<close> are not among the sources:
  the functions of theirs that resolution calls are parameters of the model.
\<close>

record conventions =
  dart_DefaultOutput :: "string \<Rightarrow> string \<Rightarrow> string"
  rust_DefaultOutput :: "string \<Rightarrow> string \<Rightarrow> string"
  python_DefaultOutputByName :: "string \<Rightarrow> string \<Rightarrow> string"
  dart_DeriveAPIPath :: "string \<Rightarrow> string"
  rust_DeriveAPIPath :: "string \<Rightarrow> string"
  golang_Fill :: "Library \<Rightarrow> Library"

definition defaultOutput :: "conventions \<Rightarrow> string \<Rightarrow> string \<Rightarrow> string \<Rightarrow> string \<Rightarrow> string" where
  "defaultOutput cv language name api defaultOut =
     (if language = languageDart then dart_DefaultOutput cv name defaultOut
      else if language = languageRust then rust_DefaultOutput cv api defaultOut
      else if language = languagePython then python_DefaultOutputByName cv name defaultOut
      else defaultOut)"

definition deriveAPIPath :: "conventions \<Rightarrow> string \<Rightarrow> string \<Rightarrow> string" where
  "deriveAPIPath cv language name =
     (if language = languageDart then dart_DeriveAPIPath cv name
      else if language = languageRust then rust_DeriveAPIPath cv name
      else ReplaceAll name (CHR ''-'') (CHR ''/''))"

definition shouldGenerate :: "Library \<Rightarrow> bool \<Rightarrow> string \<Rightarrow> bool" where
  "shouldGenerate lib all libraryName =
     (if SkipGenerate lib then False else all \<or> Name lib = libraryName)"

subsection \<open>Filling in defaults\<close>

definition fillJava :: "Library \<Rightarrow> JavaDefault \<Rightarrow> Library" where
  "fillJava lib dj =
     (let j0 = (case Java lib of
                  None \<Rightarrow> \<lparr>FormatterJar = [], GeneratorJar = [], GRPCPlugin = [],
                            SkipFormat = False\<rparr>
                | Some j \<Rightarrow> j);
          j1 = (if FormatterJar j0 = [] then j0\<lparr>FormatterJar := FormatterJar dj\<rparr> else j0);
          j2 = (if GeneratorJar j1 = [] then j1\<lparr>GeneratorJar := GeneratorJar dj\<rparr> else j1);
          j3 = (if GRPCPlugin j2 = [] then j2\<lparr>GRPCPlugin := GRPCPlugin dj\<rparr> else j2)
      in lib\<lparr>Java := Some j3\<rparr>)"

text \<open>
  \<open>mergePackageDependencies\<close>: the library's dependencies, then the defaults whose
  name the library does not declare.
\<close>

definition mergePackageDependencies ::
    "RustPackageDependency list \<Rightarrow> RustPackageDependency list \<Rightarrow> RustPackageDependency list" where
  "mergePackageDependencies defaults lib =
     lib @ filter (\<lambda>dep. Name_dep dep \<notin> set (map Name_dep lib)) defaults"

definition fillModule :: "RustCrate \<Rightarrow> RustModule \<Rightarrow> RustModule" where
  "fillModule r m =
     (let m1 = (if GenerateSetterSamples_mod m = []
                then m\<lparr>GenerateSetterSamples_mod := GenerateSetterSamples r\<rparr> else m)
      in if GenerateRpcSamples_mod m1 = []
         then m1\<lparr>GenerateRpcSamples_mod := GenerateRpcSamples r\<rparr> else m1)"

definition fillRust :: "Library \<Rightarrow> RustDefault \<Rightarrow> Library" where
  "fillRust lib dr =
     (let r0 = (case Rust lib of
                  None \<Rightarrow> \<lparr>PackageDependencies = [], DisabledRustdocWarnings = [],
                            GenerateSetterSamples = [], GenerateRpcSamples = [], Modules = []\<rparr>
                | Some r \<Rightarrow> r);
          r1 = r0\<lparr>PackageDependencies :=
                    mergePackageDependencies (PackageDependencies dr) (PackageDependencies r0)\<rparr>;
          r2 = (if length (DisabledRustdocWarnings r1) = 0
                then r1\<lparr>DisabledRustdocWarnings := DisabledRustdocWarnings dr\<rparr> else r1);
          r3 = (if GenerateSetterSamples r2 = []
                then r2\<lparr>GenerateSetterSamples := GenerateSetterSamples dr\<rparr> else r2);
          r4 = (if GenerateRpcSamples r3 = []
                then r3\<lparr>GenerateRpcSamples := GenerateRpcSamples dr\<rparr> else r3)
      in lib\<lparr>Rust := Some (r4\<lparr>Modules := map (fillModule r4) (Modules r4)\<rparr>)\<rparr>)"

text \<open>
  \<open>mergeMaps dst src\<close>: a key present in \<open>dst\<close> keeps the value of \<open>dst\<close>.
\<close>

definition mergeMaps :: "(string \<rightharpoonup> string) \<Rightarrow> (string \<rightharpoonup> string) \<Rightarrow> (string \<rightharpoonup> string)" where
  "mergeMaps dst src = src ++ dst"

text \<open>
  \<open>mergeDartDependencies\<close>: both lists are split at the commas and trimmed; empty
  elements are dropped; a default element is dropped when the library declares it.
\<close>

definition splitDeps :: "string \<Rightarrow> string list" where
  "splitDeps s = filter (\<lambda>dep. dep \<noteq> []) (map TrimSpace (Split (CHR '','') s))"

definition mergeDartDependencies :: "string \<Rightarrow> string \<Rightarrow> string" where
  "mergeDartDependencies libDeps defaultDeps =
     (let deps = splitDeps libDeps
      in Join_str (deps @ filter (\<lambda>dep. dep \<notin> set deps) (splitDeps defaultDeps)) '','')"

definition fillDart :: "Library \<Rightarrow> DartPackage \<Rightarrow> Library" where
  "fillDart lib dd =
     (let lib1 = (if Version lib = [] then lib\<lparr>Version := Version_dart dd\<rparr> else lib);
          p0 = (case Dart lib1 of
                  None \<Rightarrow> \<lparr>APIKeysEnvironmentVariables = [], Dependencies = [],
                            IssueTrackerURL = [], Packages = Map.empty, Prefixes = Map.empty,
                            Protos = Map.empty, Version_dart = []\<rparr>
                | Some p \<Rightarrow> p);
          p1 = (if APIKeysEnvironmentVariables p0 = []
                then p0\<lparr>APIKeysEnvironmentVariables := APIKeysEnvironmentVariables dd\<rparr> else p0);
          p2 = (if IssueTrackerURL p1 = []
                then p1\<lparr>IssueTrackerURL := IssueTrackerURL dd\<rparr> else p1);
          p3 = p2\<lparr>Packages := mergeMaps (Packages p2) (Packages dd),
                   Prefixes := mergeMaps (Prefixes p2) (Prefixes dd),
                   Protos := mergeMaps (Protos p2) (Protos dd),
                   Dependencies := mergeDartDependencies (Dependencies p2) (Dependencies dd)\<rparr>
      in lib1\<lparr>Dart := Some p3\<rparr>)"

text \<open>
  \<open>fillPython\<close>: \<open>append(d.Python.CommonGAPICPaths, lib.Python.CommonGAPICPaths...)\<close>.
  When the library's elements fit into the spare capacity of the default slice they are
  written there, over what a library filled earlier may have put there, and the
  library's slice becomes a part of that array; otherwise \<open>append\<close> allocates a new
  array. The function returns the library and the default section with its backing
  array as it now is.
\<close>

definition readPaths :: "PythonDefault \<Rightarrow> paths_slice \<Rightarrow> string list" where
  "readPaths dp sl =
     (case sl of
        Own xs \<Rightarrow> xs
      | OfDefault n \<Rightarrow> take n (CommonGAPICPaths dp @ CommonGAPICPaths_spare dp))"

definition fillPython :: "Library \<Rightarrow> PythonDefault \<Rightarrow> Library \<times> PythonDefault" where
  "fillPython lib dp =
     (let p0 = (case Python lib of
                  None \<Rightarrow> \<lparr>CommonGAPICPaths_pkg = Own [], OptArgs = []\<rparr>
                | Some p \<Rightarrow> p);
          xs = readPaths dp (CommonGAPICPaths_pkg p0)
      in if length xs \<le> length (CommonGAPICPaths_spare dp) then
           (lib\<lparr>Python := Some (p0\<lparr>CommonGAPICPaths_pkg :=
                                      OfDefault (length (CommonGAPICPaths dp) + length xs)\<rparr>)\<rparr>,
            dp\<lparr>CommonGAPICPaths_spare := xs @ drop (length xs) (CommonGAPICPaths_spare dp)\<rparr>)
         else
           (lib\<lparr>Python := Some (p0\<lparr>CommonGAPICPaths_pkg := Own (CommonGAPICPaths dp @ xs)\<rparr>)\<rparr>,
            dp))"

text \<open>
  \<open>fillDefaults\<close> returns the library and the default section, which only
  \<open>fillPython\<close> changes (in the backing array described above).
\<close>

definition fillDefaults :: "Library \<Rightarrow> Default option \<Rightarrow> Library \<times> Default option" where
  "fillDefaults lib defaults =
     (case defaults of
        None \<Rightarrow> (lib, None)
      | Some d \<Rightarrow>
         (let lib1 = lib\<lparr>Keep := Keep lib @ Keep_d d\<rparr>;
              lib2 = (if Output lib1 = [] then lib1\<lparr>Output := Output_d d\<rparr> else lib1);
              lib3 = (if ReleaseLevel lib2 = []
                      then lib2\<lparr>ReleaseLevel := ReleaseLevel_d d\<rparr> else lib2);
              lib4 = (if Transport lib3 = [] then lib3\<lparr>Transport := Transport_d d\<rparr> else lib3)
          in (case Rust_d d of Some dr \<Rightarrow> (fillRust lib4 dr, Some d) | None \<Rightarrow>
             (case Dart_d d of Some dd \<Rightarrow> (fillDart lib4 dd, Some d) | None \<Rightarrow>
             (case Python_d d of
                Some dp \<Rightarrow>
                  (case fillPython lib4 dp of
                     (lib5, dp') \<Rightarrow> (lib5, Some (d\<lparr>Python_d := Some dp'\<rparr>)))
              | None \<Rightarrow>
             (case Java_d d of Some dj \<Rightarrow> (fillJava lib4 dj, Some d) | None \<Rightarrow>
              (lib4, Some d)))))))"

definition fillLibraryDefaults :: "conventions \<Rightarrow> string \<Rightarrow> Library \<times> Default option
    \<Rightarrow> gen_error + (Library \<times> Default option)" where
  "fillLibraryDefaults cv language filled =
     (case filled of
        (lib, defaults) \<Rightarrow>
          if language = languageGo then Inr (golang_Fill cv lib, defaults)
          else Inr (lib, defaults))"

text \<open>
  \<open>applyDefaults\<close>. The expression \<open>defaults.Output\<close> is evaluated without a nil
  test: with no \<open>default\<close> section in the configuration it panics, which the model
  returns as \<open>PanicNilDereference\<close>. On success the function returns the resolved
  library and the default section as \<open>fillDefaults\<close> leaves it.
\<close>

definition applyDefaults :: "conventions \<Rightarrow> string \<Rightarrow> Library \<Rightarrow> Default option
    \<Rightarrow> gen_error + (Library \<times> Default option)" where
  "applyDefaults cv language lib defaults =
     (let lib1 = (if length (APIs lib) = 0 then lib\<lparr>APIs := APIs lib @ [\<lparr>Path = []\<rparr>]\<rparr> else lib);
          lib2 = (if \<not> Veneer lib1
                  then lib1\<lparr>APIs := map (\<lambda>api. if Path api = []
                                              then api\<lparr>Path := deriveAPIPath cv language (Name lib1)\<rparr>
                                              else api) (APIs lib1)\<rparr>
                  else lib1)
      in if Output lib2 = [] then
           (if Veneer lib2 then Inl (ErrVeneerRequiresOutput (Name lib2))
            else case defaults of
                   None \<Rightarrow> Inl PanicNilDereference
                 | Some d \<Rightarrow>
                     fillLibraryDefaults cv language
                       (fillDefaults
                          (lib2\<lparr>Output := defaultOutput cv language (Name lib2)
                                             (Path (hd (APIs lib2))) (Output_d d)\<rparr>)
                          defaults))
         else fillLibraryDefaults cv language (fillDefaults lib2 defaults))"

text \<open>
  The path of the first API once \<open>applyDefaults\<close> has filled in the missing paths of a
  library that is not a veneer: the declared one, or the one derived from the name.
\<close>

definition firstAPIPath :: "conventions \<Rightarrow> string \<Rightarrow> Library \<Rightarrow> string" where
  "firstAPIPath cv language lib =
     (case APIs lib of
        [] \<Rightarrow> deriveAPIPath cv language (Name lib)
      | api # _ \<Rightarrow> if Path api = [] then deriveAPIPath cv language (Name lib) else Path api)"

subsection \<open>\<open>runGenerate\<close>\<close>

text \<open>
  What the outside world answers to the calls of \<open>runGenerate\<close>: the fetch of the
  googleapis repository, the fetch of the further Rust and Dart sources, and the four
  phases, which run in the language packages on the prepared libraries and see the
  default section whose memory they share.
\<close>

record gen_calls =
  r_RepoDir :: "gen_error + string"
  r_FetchRustDartSources :: "gen_error option"
  r_cleanLibraries :: "Default option \<Rightarrow> Library list \<Rightarrow> gen_error option"
  r_generateLibraries :: "Default option \<Rightarrow> Library list \<Rightarrow> gen_error option"
  r_formatLibraries :: "Default option \<Rightarrow> Library list \<Rightarrow> gen_error option"
  r_postGenerate :: "gen_error option"

definition LoadSources :: "gen_calls \<Rightarrow> Config \<Rightarrow> gen_error + string" where
  "LoadSources r cfg =
     (case Sources cfg of
        None \<Rightarrow> Inl ErrMustSpecifyGoogleapis
      | Some srcs \<Rightarrow>
          (case Googleapis srcs of
             None \<Rightarrow> Inl ErrMustSpecifyGoogleapis
           | Some g \<Rightarrow>
               (case (if Dir_src g \<noteq> [] then Inr (Dir_src g)
                      else (case r_RepoDir r of
                              Inl e \<Rightarrow> Inl e
                            | Inr dir \<Rightarrow> Inr dir)) of
                  Inl e \<Rightarrow> Inl e
                | Inr googleapisDir \<Rightarrow>
                    if Language cfg = languageRust \<or> Language cfg = languageDart then
                      (case r_FetchRustDartSources r of
                         Some e \<Rightarrow> Inl e
                       | None \<Rightarrow> Inr googleapisDir)
                    else Inr googleapisDir)))"

text \<open>
  The first loop of \<open>runGenerate\<close>: the libraries that pass \<open>shouldGenerate\<close>, with
  the defaults applied, in the order of the configuration; the first error ends it. The
  default section goes from one library to the next as the one before left it.
\<close>

fun prepareLibraries :: "conventions \<Rightarrow> string \<Rightarrow> Default option \<Rightarrow> bool \<Rightarrow> string
    \<Rightarrow> Library list \<Rightarrow> gen_error + (Library list \<times> Default option)" where
  "prepareLibraries cv language defaults all libraryName [] = Inr ([], defaults)"
| "prepareLibraries cv language defaults all libraryName (lib # rest) =
     (if \<not> shouldGenerate lib all libraryName
      then prepareLibraries cv language defaults all libraryName rest
      else
        (case applyDefaults cv language lib defaults of
           Inl e \<Rightarrow> Inl e
         | Inr (prepared, defaults1) \<Rightarrow>
             (case prepareLibraries cv language defaults1 all libraryName rest of
                Inl e \<Rightarrow> Inl e
              | Inr (libraries, defaults2) \<Rightarrow> Inr (prepared # libraries, defaults2))))"

text \<open>The second loop, run when nothing is to be generated: is the name configured?\<close>

fun nameConfigured :: "string \<Rightarrow> Library list \<Rightarrow> bool" where
  "nameConfigured libraryName [] = False"
| "nameConfigured libraryName (lib # rest) =
     (if Name lib = libraryName then True else nameConfigured libraryName rest)"

definition runPhases :: "gen_calls \<Rightarrow> Default option \<Rightarrow> Library list \<Rightarrow> gen_error option" where
  "runPhases r defaults libraries =
     (case r_cleanLibraries r defaults libraries of Some e \<Rightarrow> Some e | None \<Rightarrow>
     (case r_generateLibraries r defaults libraries of Some e \<Rightarrow> Some e | None \<Rightarrow>
     (case r_formatLibraries r defaults libraries of Some e \<Rightarrow> Some e | None \<Rightarrow>
      r_postGenerate r)))"

definition runGenerate :: "conventions \<Rightarrow> gen_calls \<Rightarrow> Config \<Rightarrow> bool \<Rightarrow> string
    \<Rightarrow> gen_error option" where
  "runGenerate cv r cfg all libraryName =
     (if Sources cfg = None then Some ErrEmptySources
      else
        case LoadSources r cfg of
          Inl e \<Rightarrow> Some e
        | Inr googleapisDir \<Rightarrow>
            (case prepareLibraries cv (Language cfg) (Default_cfg cfg) all libraryName
                    (Libraries cfg) of
               Inl e \<Rightarrow> Some e
             | Inr (libraries, defaults) \<Rightarrow>
                 if length libraries = 0 then
                   (if all then Some ErrNoLibrariesToGenerate
                    else if nameConfigured libraryName (Libraries cfg)
                    then Some (ErrSkipGenerate libraryName)
                    else Some (ErrLibraryNotFound libraryName))
                 else runPhases r defaults libraries))"

section \<open>The keep-list cleaner (package librarian: checkAndClean, check, clean)\<close>

subsection \<open>Files and directories\<close>

text \<open>
  A path is the list of its components. The tree below the target directory is a
  \<open>node\<close>: a file, or a directory with its entries in the order \<open>os.ReadDir\<close>
  returns them (sorted by file name). Only regular files and directories are modelled (no
  symbolic links), and no call on the tree fails for lack of permission: the errors below
  the target are those that the shape of the tree causes. The name of an entry is one
  path component (it holds no separator).

  An entry is found by its name (\<open>map_of\<close>, \<open>upd_entry\<close>, \<open>del_entry\<close> act on the
  first entry of that name); a directory of a real file system holds each name once, which
  \<open>wf_node\<close> states.
\<close>

type_synonym path = "string list"

datatype node = File | Dir "(string \<times> node) list"

datatype errno = ENOENT | ENOTDIR | ENOTEMPTY | EACCES

fun upd_entry :: "string \<Rightarrow> (node \<Rightarrow> node) \<Rightarrow> (string \<times> node) list \<Rightarrow> (string \<times> node) list" where
  "upd_entry c g [] = []"
| "upd_entry c g ((n, x) # es) = (if n = c then (n, g x) # es else (n, x) # upd_entry c g es)"

fun del_entry :: "string \<Rightarrow> (string \<times> node) list \<Rightarrow> (string \<times> node) list" where
  "del_entry c [] = []"
| "del_entry c ((n, x) # es) = (if n = c then es else (n, x) # del_entry c es)"

text \<open>
  \<open>lookup p t\<close> is what \<open>os.Stat\<close> finds at the path \<open>p\<close> below \<open>t\<close>: the node,
  \<open>ENOENT\<close> when a component is missing, \<open>ENOTDIR\<close> when the path runs through a
  file. \<open>replace p new t\<close> is \<open>t\<close> with the node at \<open>p\<close> replaced.
\<close>

fun lookup :: "path \<Rightarrow> node \<Rightarrow> errno + node" where
  "lookup [] t = Inr t"
| "lookup (c # cs) File = Inl ENOTDIR"
| "lookup (c # cs) (Dir es) =
     (case map_of es c of None \<Rightarrow> Inl ENOENT | Some x \<Rightarrow> lookup cs x)"

fun replace :: "path \<Rightarrow> node \<Rightarrow> node \<Rightarrow> node" where
  "replace [] new t = new"
| "replace (c # cs) new File = File"
| "replace (c # cs) new (Dir es) = Dir (upd_entry c (\<lambda>x. replace cs new x) es)"

fun wf_node :: "node \<Rightarrow> bool" and wf_entries :: "(string \<times> node) list \<Rightarrow> bool" where
  "wf_node File = True"
| "wf_node (Dir es) = (distinct (map fst es) \<and> wf_entries es)"
| "wf_entries [] = True"
| "wf_entries ((n, x) # es) = (wf_node x \<and> wf_entries es)"

text \<open>
  The state of the target directory itself: the error of the \<open>Stat\<close> of \<open>dir\<close>, or
  the tree found there.

  \<open>os.Remove\<close> unlinks a file or removes an empty directory, and fails on a directory
  that is not empty. The path is relative to the target directory; the empty path is the
  target itself.
\<close>

type_synonym target = "errno + node"

definition os_Remove :: "path \<Rightarrow> target \<Rightarrow> errno + target" where
  "os_Remove p tgt =
     (case tgt of
        Inl e \<Rightarrow> Inl e
      | Inr t \<Rightarrow>
          if p = [] then
            (case t of
               File \<Rightarrow> Inr (Inl ENOENT)
             | Dir [] \<Rightarrow> Inr (Inl ENOENT)
             | Dir (e # es) \<Rightarrow> Inl ENOTEMPTY)
          else
            (case lookup (butlast p) t of
               Inl e \<Rightarrow> Inl e
             | Inr File \<Rightarrow> Inl ENOTDIR
             | Inr (Dir es) \<Rightarrow>
                 (case map_of es (last p) of
                    None \<Rightarrow> Inl ENOENT
                  | Some File \<Rightarrow>
                      Inr (Inr (replace (butlast p) (Dir (del_entry (last p) es)) t))
                  | Some (Dir []) \<Rightarrow>
                      Inr (Inr (replace (butlast p) (Dir (del_entry (last p) es)) t))
                  | Some (Dir (e # es')) \<Rightarrow> Inl ENOTEMPTY)))"


subsection \<open>Paths\<close>

text \<open>
  \<open>dir\<close> is given by the components of its absolute path. \<open>Clean\<close> is
  \<open>filepath.Clean\<close> on components: empty components and \<open>.\<close> are dropped, \<open>..\<close>
  removes the component before it (and stays at the root). \<open>Join_path dir k\<close> is
  \<open>filepath.Join(dir, k)\<close> for a keep entry \<open>k\<close>, and \<open>Rel_path\<close> is
  \<open>filepath.Rel\<close>, which for absolute paths cannot fail: one \<open>..\<close> for each
  component of the base beyond the common prefix, then the rest of the target. The
  relative path \<open>.\<close> is the empty list. \<open>baseName dir\<close> is the name that the
  \<open>DirEntry\<close> of the root carries.
\<close>

definition cleanStep :: "path \<Rightarrow> string \<Rightarrow> path" where
  "cleanStep acc c =
     (if c = [] \<or> c = ''.'' then acc
      else if c = ''..'' then butlast acc
      else acc @ [c])"

definition Clean :: "path \<Rightarrow> path" where
  "Clean p = foldl cleanStep [] p"

definition Join_path :: "path \<Rightarrow> string \<Rightarrow> path" where
  "Join_path dir k = Clean (dir @ Split (CHR ''/'') k)"

definition Rel_path :: "path \<Rightarrow> path \<Rightarrow> path" where
  "Rel_path basepath targpath =
     (let b = Clean basepath; t = Clean targpath;
          c = length (longest_common_prefix b t)
      in replicate (length b - c) ''..'' @ drop c t)"

definition baseName :: "path \<Rightarrow> string" where
  "baseName dir = (if dir = [] then ''/'' else last dir)"

subsection \<open>The file system seen by the cleaner\<close>

text \<open>
  The cleaner sees the target directory and, through keep entries that lead out of it
  (\<open>../x\<close>), the rest of the file system: \<open>outside fs p\<close> is the error of
  \<open>os.Stat\<close> at a path \<open>p\<close> that is not below \<open>dir\<close>, \<open>None\<close> when the path
  exists. \<open>Stat_err dir fs p\<close> is the error of \<open>os.Stat(p)\<close>.
\<close>

record fsys =
  target :: target
  outside :: "path \<Rightarrow> errno option"

definition Stat_err :: "path \<Rightarrow> fsys \<Rightarrow> path \<Rightarrow> errno option" where
  "Stat_err dir fs p =
     (if prefix (Clean dir) p then
        (case target fs of
           Inl e \<Rightarrow> Some e
         | Inr t \<Rightarrow>
             (case lookup (drop (length (Clean dir)) p) t of
                Inl e \<Rightarrow> Some e
              | Inr x \<Rightarrow> None))
      else outside fs p)"

datatype clean_error =
    CannotAccess errno
  | NotADirectory
  | KeepFileDoesNotExist string
  | OsError errno
  | PanicNilEntry

subsection \<open>\<open>check\<close>\<close>

text \<open>
  The loop of \<open>check\<close> over the keep list, and \<open>check\<close>. Only \<open>ENOENT\<close>
  satisfies \<open>errors.Is(err, fs.ErrNotExist)\<close>. For a directory that does not exist
  \<open>check\<close> returns \<open>nil, nil\<close>: no error and the nil map, in which every lookup
  gives false, as in the empty map.
\<close>

fun checkKeep :: "path \<Rightarrow> fsys \<Rightarrow> string list \<Rightarrow> (path \<rightharpoonup> bool)
    \<Rightarrow> clean_error + (path \<rightharpoonup> bool)" where
  "checkKeep dir fs [] keepSet = Inr keepSet"
| "checkKeep dir fs (k # ks) keepSet =
     (let path = Join_path dir k in
      if Stat_err dir fs path = Some ENOENT then Inl (KeepFileDoesNotExist k)
      else checkKeep dir fs ks (keepSet(Rel_path dir path \<mapsto> True)))"

definition check :: "path \<Rightarrow> string list \<Rightarrow> fsys \<Rightarrow> clean_error + (path \<rightharpoonup> bool)" where
  "check dir keep fs =
     (case target fs of
        Inl e \<Rightarrow> if e = ENOENT then Inr Map.empty else Inl (CannotAccess e)
      | Inr File \<Rightarrow> Inl NotADirectory
      | Inr (Dir es) \<Rightarrow> checkKeep dir fs keep Map.empty)"

subsection \<open>\<open>filepath.WalkDir\<close>\<close>

text \<open>
  The callback receives the path (here relative to \<open>dir\<close>), the directory entry
  (nil when the \<open>Lstat\<close> of the root failed) and the error, and returns nil
  (\<open>Continue\<close>), \<open>filepath.SkipDir\<close> or an error; it also acts on a state \<open>'s\<close>.

  \<open>walkDir\<close> calls the callback on a node, then reads the entries of a directory and
  walks them in order; \<open>SkipDir\<close> from a directory skips its entries, from a file it
  ends the loop over the directory that holds it. \<open>WalkDir\<close> reads each directory when
  it enters it. Neither callback of \<open>clean\<close> changes a directory that the walk has
  still to read (the first removes only the file it is visiting, the second changes
  nothing), so the entries read are those of the tree at the start of the walk, and the
  walk is a recursion over that tree.
\<close>

record DirEntry =
  Name_entry :: string
  IsDir :: bool

datatype ctl = Continue | SkipDir | Fail clean_error

type_synonym 's WalkDirFunc = "path \<Rightarrow> DirEntry option \<Rightarrow> errno option \<Rightarrow> 's \<Rightarrow> ctl \<times> 's"

fun walkDir :: "'s WalkDirFunc \<Rightarrow> path \<Rightarrow> string \<Rightarrow> node \<Rightarrow> 's \<Rightarrow> ctl \<times> 's"
  and walkEntries :: "'s WalkDirFunc \<Rightarrow> path \<Rightarrow> (string \<times> node) list \<Rightarrow> 's \<Rightarrow> ctl \<times> 's" where
  "walkDir fn p name File s = fn p (Some \<lparr>Name_entry = name, IsDir = False\<rparr>) None s"
| "walkDir fn p name (Dir es) s =
     (case fn p (Some \<lparr>Name_entry = name, IsDir = True\<rparr>) None s of
        (Continue, s') \<Rightarrow> walkEntries fn p es s'
      | (SkipDir, s') \<Rightarrow> (Continue, s')
      | (Fail e, s') \<Rightarrow> (Fail e, s'))"
| "walkEntries fn p [] s = (Continue, s)"
| "walkEntries fn p ((n, x) # es) s =
     (case walkDir fn (p @ [n]) n x s of
        (Continue, s') \<Rightarrow> walkEntries fn p es s'
      | (SkipDir, s') \<Rightarrow> (Continue, s')
      | (Fail e, s') \<Rightarrow> (Fail e, s'))"

definition WalkDir :: "string \<Rightarrow> target \<Rightarrow> 's WalkDirFunc \<Rightarrow> 's \<Rightarrow> clean_error option \<times> 's" where
  "WalkDir rootName root fn s =
     (case (case root of
              Inl e \<Rightarrow> fn [] None (Some e) s
            | Inr t \<Rightarrow> walkDir fn [] rootName t s) of
        (Continue, s') \<Rightarrow> (None, s')
      | (SkipDir, s') \<Rightarrow> (None, s')
      | (Fail e, s') \<Rightarrow> (Some e, s'))"

subsection \<open>\<open>clean\<close>\<close>

text \<open>
  \<open>keptFile\<close> is the test \<open>rel == "librarian.yaml" || keepSet[rel]\<close>.
  \<open>removeUnkept\<close> is the callback of the first pass, whose state is the target
  directory; \<open>collectDirs\<close> is the callback of the second pass, whose state is the
  slice \<open>dirs\<close>. \<open>removeDirs\<close> is the last loop, given the directories in the order
  it visits them (the reverse of \<open>dirs\<close>); the error of \<open>os.Remove\<close> is discarded.
\<close>

definition skippedDir :: "string \<Rightarrow> bool" where
  "skippedDir name = (name = ''.git'' \<or> name = ''.github'' \<or> name = ''.gemini'')"

definition keptFile :: "(path \<rightharpoonup> bool) \<Rightarrow> path \<Rightarrow> bool" where
  "keptFile keepSet rel = (rel = [''librarian.yaml''] \<or> keepSet rel = Some True)"

definition removeUnkept :: "(path \<rightharpoonup> bool) \<Rightarrow> target WalkDirFunc" where
  "removeUnkept keepSet rel d err s =
     (case err of
        Some e \<Rightarrow> (Fail (OsError e), s)
      | None \<Rightarrow>
          (case d of
             None \<Rightarrow> (Fail PanicNilEntry, s)
           | Some ent \<Rightarrow>
               if IsDir ent then
                 (if skippedDir (Name_entry ent) then (SkipDir, s) else (Continue, s))
               else if keptFile keepSet rel then (Continue, s)
               else
                 (case os_Remove rel s of
                    Inl e \<Rightarrow> (Fail (OsError e), s)
                  | Inr s' \<Rightarrow> (Continue, s'))))"

definition collectDirs :: "(path list) WalkDirFunc" where
  "collectDirs rel d err dirs =
     (case err of
        Some e \<Rightarrow> (Fail (OsError e), dirs)
      | None \<Rightarrow>
          (case d of
             None \<Rightarrow> (Fail PanicNilEntry, dirs)
           | Some ent \<Rightarrow>
               if IsDir ent then
                 (if skippedDir (Name_entry ent) then (SkipDir, dirs)
                  else if rel \<noteq> [] then (Continue, dirs @ [rel])
                  else (Continue, dirs))
               else (Continue, dirs)))"

fun removeDirs :: "(path \<rightharpoonup> bool) \<Rightarrow> path list \<Rightarrow> target \<Rightarrow> target" where
  "removeDirs keepSet [] s = s"
| "removeDirs keepSet (d # ds) s =
     (if keepSet d = Some True then removeDirs keepSet ds s
      else
        case os_Remove d s of
          Inl e \<Rightarrow> removeDirs keepSet ds s
        | Inr s' \<Rightarrow> removeDirs keepSet ds s')"

definition clean :: "string \<Rightarrow> (path \<rightharpoonup> bool) \<Rightarrow> target \<Rightarrow> clean_error option \<times> target" where
  "clean rootName keepSet tgt =
     (case WalkDir rootName tgt (removeUnkept keepSet) tgt of
        (Some e, tgt1) \<Rightarrow> (Some e, tgt1)
      | (None, tgt1) \<Rightarrow>
          (case WalkDir rootName tgt1 collectDirs [] of
             (Some e, dirs) \<Rightarrow> (Some e, tgt1)
           | (None, dirs) \<Rightarrow> (None, removeDirs keepSet (rev dirs) tgt1)))"

definition checkAndClean :: "path \<Rightarrow> string list \<Rightarrow> fsys \<Rightarrow> clean_error option \<times> fsys" where
  "checkAndClean dir keep fs =
     (case check dir keep fs of
        Inl e \<Rightarrow> (Some e, fs)
      | Inr keepSet \<Rightarrow>
          (case clean (baseName dir) keepSet (target fs) of
             (r, tgt) \<Rightarrow> (r, fs\<lparr>target := tgt\<rparr>)))"

subsection \<open>The two passes, described on the tree\<close>

text \<open>
  What the two passes leave of a list of entries at the relative path \<open>p\<close>, written
  by recursion over the tree; the proofs below show that \<open>clean\<close> computes exactly
  this. \<open>sweepFiles\<close>: the files that are not kept are gone, except below a skipped
  directory. \<open>listDirs\<close>: the directories that the second walk collects, in its order.
  \<open>pruneDirs\<close>: a directory that is not kept and is empty once its own directories
  have been pruned is gone. \<open>swept\<close>: no file is left for the first pass to remove.
\<close>

fun sweepFiles :: "(path \<rightharpoonup> bool) \<Rightarrow> path \<Rightarrow> (string \<times> node) list \<Rightarrow> (string \<times> node) list" where
  "sweepFiles K p [] = []"
| "sweepFiles K p ((n, File) # es) =
     (if keptFile K (p @ [n]) then [(n, File)] else []) @ sweepFiles K p es"
| "sweepFiles K p ((n, Dir cs) # es) =
     (n, if skippedDir n then Dir cs else Dir (sweepFiles K (p @ [n]) cs)) # sweepFiles K p es"

fun listDirs :: "path \<Rightarrow> (string \<times> node) list \<Rightarrow> path list" where
  "listDirs p [] = []"
| "listDirs p ((n, File) # es) = listDirs p es"
| "listDirs p ((n, Dir cs) # es) =
     (if skippedDir n then [] else (p @ [n]) # listDirs (p @ [n]) cs) @ listDirs p es"

fun pruneDirs :: "(path \<rightharpoonup> bool) \<Rightarrow> path \<Rightarrow> (string \<times> node) list \<Rightarrow> (string \<times> node) list" where
  "pruneDirs K p [] = []"
| "pruneDirs K p ((n, File) # es) = (n, File) # pruneDirs K p es"
| "pruneDirs K p ((n, Dir cs) # es) =
     (if skippedDir n then [(n, Dir cs)]
      else let cs' = pruneDirs K (p @ [n]) cs
           in if K (p @ [n]) \<noteq> Some True \<and> cs' = [] then [] else [(n, Dir cs')])
     @ pruneDirs K p es"

definition cleaned :: "string \<Rightarrow> (path \<rightharpoonup> bool) \<Rightarrow> (string \<times> node) list \<Rightarrow> (string \<times> node) list" where
  "cleaned rootName K es =
     (if skippedDir rootName then es else pruneDirs K [] (sweepFiles K [] es))"

fun swept :: "(path \<rightharpoonup> bool) \<Rightarrow> path \<Rightarrow> (string \<times> node) list \<Rightarrow> bool" where
  "swept K p [] = True"
| "swept K p ((n, File) # es) = (keptFile K (p @ [n]) \<and> swept K p es)"
| "swept K p ((n, Dir cs) # es) = ((skippedDir n \<or> swept K (p @ [n]) cs) \<and> swept K p es)"

text \<open>Every directory of the target holds each name once.\<close>

definition wf_target :: "target \<Rightarrow> bool" where
  "wf_target tgt = (case tgt of Inl e \<Rightarrow> True | Inr t \<Rightarrow> wf_node t)"



subsection \<open>A small tree, used to exercise the theorems\<close>

definition demo_tree :: node where
  "demo_tree =
     Dir [(''.git'', Dir [(''config'', File)]),
          (''README.md'', File),
          (''librarian.yaml'', File),
          (''src'', Dir [(''a.go'', File),
                         (''gen'', Dir [(''b.go'', File)]),
                         (''keep'', Dir [(''c.go'', File), (''d.go'', File)])]),
          (''tmp'', Dir [])]"

definition demo_fs :: fsys where
  "demo_fs = \<lparr>target = Inr demo_tree, outside = (\<lambda>p. Some ENOENT)\<rparr>"

definition demo_keep :: "string list" where
  "demo_keep = [''README.md'', ''src/keep/c.go'']"

section \<open>Example inputs of the update engine and of the generation\<close>

definition demo_state :: PipelineState where
  "demo_state = \<lparr>ImageTag = ''v1'', ApiGenerationStates =
     [\<lparr>Id_api = ''google/cloud/a/v1'', AutomationLevel = AUTOMATION_LEVEL_NORMAL,
       LastGeneratedCommit = ''c0''\<rparr>]\<rparr>"

definition demo_world :: world where
  "demo_world = \<lparr>repoState = demo_state, stateFile = demo_state, effects = []\<rparr>"

definition demo_commits :: "Commit list" where
  "demo_commits =
     [\<lparr>Hash = ''c2'', Message = ''feat: two''\<rparr>, \<lparr>Hash = ''c1'', Message = ''feat: one''\<rparr>]"

definition demo_calls :: api_calls where
  "demo_calls = \<lparr>r_GetApiCommits = Inr demo_commits, r_MkdirAll = None, r_Generate = None,
     r_Clean = None, r_CopyFS = None, r_WriteState = None, r_AddAll = Inr False,
     r_Commit = None, r_Build = None, r_IsClean = Inr True\<rparr>"

definition demo_no_commits :: api_calls where
  "demo_no_commits = demo_calls\<lparr>r_GetApiCommits := Inr []\<rparr>"

definition demo_failing_calls :: api_calls where
  "demo_failing_calls = demo_calls\<lparr>r_Generate := Some (CallFailed ''generate'')\<rparr>"

definition demo_plan :: "nat \<Rightarrow> api_calls" where
  "demo_plan i = demo_calls"

definition demo_failing_plan :: "nat \<Rightarrow> api_calls" where
  "demo_failing_plan i = demo_failing_calls"

definition demo_flags :: flags where
  "demo_flags = \<lparr>flagLanguage = ''java'', flagPush = False, flagGitHubToken = [],
     flagAPIRoot = ''/src/googleapis'', flagOutput = [], flagRepoRoot = [], flagAPIPath = []\<rparr>"

definition demo_run :: run_calls where
  "demo_run = \<lparr>r_createTmpWorkingRoot = None, r_cloneGoogleapis = None, r_Abs_apiRoot = None,
     r_Open_apiRepo = None, r_IsClean_apiRepo = Inr True, r_Mkdir_output = None,
     r_Abs_output = None, r_cloneLanguageRepo = None, r_Abs_repoRoot = None,
     r_Open_languageRepo = None, r_IsClean_repoRoot = Inr True, r_loadState = None,
     r_CopyFS_generatorInput = None, r_HeadHash_before = Inr ''h0'',
     r_HeadHash_after = Inr ''h1'', r_push = None\<rparr>"

definition demo_conventions :: conventions where
  "demo_conventions = \<lparr>dart_DefaultOutput = (\<lambda>name out. out @ ''/'' @ name),
     rust_DefaultOutput = (\<lambda>api out. out @ ''/'' @ api),
     python_DefaultOutputByName = (\<lambda>name out. out @ ''/'' @ name),
     dart_DeriveAPIPath = (\<lambda>name. name), rust_DeriveAPIPath = (\<lambda>name. name),
     golang_Fill = (\<lambda>lib. lib)\<rparr>"

definition demo_library :: Library where
  "demo_library = \<lparr>Name = ''secretmanager'', Version = [],
     APIs = [\<lparr>Path = ''google/cloud/secretmanager/v1''\<rparr>], Keep = [], Output = [],
     ReleaseLevel = [], SkipGenerate = True, Transport = [], Veneer = False, Dart = None,
     Java = None, Python = None, Rust = None\<rparr>"

definition demo_default :: Default where
  "demo_default = \<lparr>Keep_d = [], Output_d = ''packages'', ReleaseLevel_d = ''stable'',
     Transport_d = [], Dart_d = None, Java_d = None, Rust_d = None, Python_d = None\<rparr>"

definition demo_config :: Config where
  "demo_config = \<lparr>Language = ''fake'',
     Sources = Some \<lparr>Googleapis =
       Some \<lparr>Commit_src = [], Dir_src = ''/googleapis'', SHA256_src = []\<rparr>\<rparr>,
     Default_cfg = Some demo_default, Libraries = [demo_library]\<rparr>"

definition demo_gen_calls :: gen_calls where
  "demo_gen_calls = \<lparr>r_RepoDir = Inr ''/cache'', r_FetchRustDartSources = None,
     r_cleanLibraries = (\<lambda>d ls. None), r_generateLibraries = (\<lambda>d ls. None),
     r_formatLibraries = (\<lambda>d ls. None), r_postGenerate = None\<rparr>"

section \<open>Proofs: commit messages\<close>

lemma writeLines_joinLines: "writeLines ls b = b @ joinLines ls"
  by (induction ls arbitrary: b) (simp_all add: joinLines_def)

lemma joinLines_append: "joinLines (xs @ ys) = joinLines xs @ joinLines ys"
  by (simp add: joinLines_def)

lemma consumeLines_builder:
  "builder (consumeLines ls acc) = builder acc @ joinLines (filter (\<lambda>l. \<not> isTagLine l) ls)"
  by (induction ls arbitrary: acc) (simp_all add: joinLines_def isTagLine_def)

lemma consumeLines_piper:
  "piperRevIdLines (consumeLines ls acc) = piperRevIdLines acc @ filter isTagLine ls"
  by (induction ls arbitrary: acc) (simp_all add: isTagLine_def)

lemma consumeLines_links:
  "sourceLinkLines (consumeLines ls acc) = sourceLinkLines acc"
  by (induction ls arbitrary: acc) simp_all

lemma consumeCommits_builder:
  "builder (consumeCommits cs acc) =
     builder acc @ joinLines (concat (map (\<lambda>c. filter (\<lambda>l. \<not> isTagLine l) (messageLines c)) cs))"
  by (induction cs arbitrary: acc)
     (simp_all add: consumeLines_builder joinLines_append messageLines_def joinLines_def)

lemma consumeCommits_piper:
  "piperRevIdLines (consumeCommits cs acc) =
     piperRevIdLines acc @ concat (map (\<lambda>c. filter isTagLine (messageLines c)) cs)"
  by (induction cs arbitrary: acc) (simp_all add: consumeLines_piper messageLines_def)

lemma consumeCommits_links:
  "sourceLinkLines (consumeCommits cs acc) = sourceLinkLines acc @ map sourceLink cs"
  by (induction cs arbitrary: acc) (simp_all add: consumeLines_links)

text \<open>
  C2. The message built by \<open>createCommitMessage\<close> is, for every commit list (the
  non-empty ones in particular), the newline-terminated lines of: the lines without the
  \<open>PiperOrigin-RevId: \<close> prefix of every commit, commits taken oldest first (the
  newest-first input reversed); then the lines with that prefix, in the same order; then
  one generated source-link line for each commit, oldest first.
\<close>

theorem createCommitMessage_layout:
  "createCommitMessage commits = spec_commitMessage commits
   \<and> length (spec_sourceLinkLines commits) = length commits"
  by (simp add: createCommitMessage_def spec_commitMessage_def Let_def writeLines_joinLines
      consumeCommits_builder consumeCommits_piper consumeCommits_links joinLines_append
      spec_nonTagLines_def spec_tagLines_def spec_sourceLinkLines_def)


section \<open>Proofs: the incremental update engine\<close>

text \<open>
  C1. When the record is not filtered out and not blocked, the commit query returns a
  non-empty list \<open>newest # older\<close> (newest first), and the output directory, the
  generation, the clean and the copy succeed, \<open>updateApi\<close> sets the record's last
  generated commit to the hash of \<open>newest\<close>, whatever the later steps do; and it
  persists it: once the write of \<open>saveState\<close> succeeds, the state file holds the
  in-memory state, with that hash.
\<close>

theorem updateApi_sets_last_generated_commit:
  assumes "i < length (ApiGenerationStates (repoState w))"
    and "apiPath = [] \<or> apiPath = Id_api (ApiGenerationStates (repoState w) ! i)"
    and "AutomationLevel (ApiGenerationStates (repoState w) ! i) \<noteq> AUTOMATION_LEVEL_BLOCKED"
    and "r_GetApiCommits r = Inr (newest # older)"
    and "r_MkdirAll r = None" and "r_Generate r = None" and "r_Clean r = None"
    and "r_CopyFS r = None"
  shows "LastGeneratedCommit
           (ApiGenerationStates (repoState (snd (updateApi apiPath r i w))) ! i) = Hash newest
       \<and> (r_WriteState r = None \<longrightarrow>
            stateFile (snd (updateApi apiPath r i w)) = repoState (snd (updateApi apiPath r i w)))"
  using assms
  by (auto simp: updateApi_def Let_def saveState_def commitAll_def setLastGeneratedCommit_def
       record_effect_def split: sum.splits option.splits prod.splits if_splits)

theorem updateApi_sets_last_generated_commit_witness:
  "0 < length (ApiGenerationStates (repoState demo_world))
   \<and> r_GetApiCommits demo_calls = Inr demo_commits
   \<and> LastGeneratedCommit
       (ApiGenerationStates (repoState (snd (updateApi [] demo_calls 0 demo_world))) ! 0) = ''c2''
   \<and> LastGeneratedCommit
       (ApiGenerationStates (stateFile (snd (updateApi [] demo_calls 0 demo_world))) ! 0) = ''c2''"
  using updateApi_sets_last_generated_commit [of 0 demo_world "[]" demo_calls
      "\<lparr>Hash = ''c2'', Message = ''feat: two''\<rparr>" "[\<lparr>Hash = ''c1'', Message = ''feat: one''\<rparr>]"]
  by (simp add: demo_world_def demo_state_def demo_calls_def demo_commits_def)

text \<open>
  C3. If the commit query returns the empty list, \<open>updateApi\<close> returns success with
  the world as it was: no effect is recorded (no generation, clean, copy or commit), and
  the in-memory and the persisted state are unchanged.
\<close>

theorem updateApi_no_commits_noop:
  "r_GetApiCommits r = Inr [] \<Longrightarrow> updateApi apiPath r i w = (None, w)"
  by (simp add: updateApi_def Let_def)

theorem updateApi_no_commits_noop_witness:
  "r_GetApiCommits demo_no_commits = Inr []
   \<and> updateApi [] demo_no_commits 0 demo_world = (None, demo_world)"
  using updateApi_no_commits_noop [of demo_no_commits "[]" 0 demo_world]
  by (simp add: demo_no_commits_def)

text \<open>
  C10. With a non-empty \<open>-api-path\<close> filter, \<open>updateApi\<close> returns success at once
  for every record whose identifier differs from the filter, with the world as it was: no
  generation, clean, copy, commit or build, and the in-memory and the persisted state
  unchanged.
\<close>

theorem updateApi_filtered_noop:
  "apiPath \<noteq> [] \<Longrightarrow> apiPath \<noteq> Id_api (ApiGenerationStates (repoState w) ! i)
     \<Longrightarrow> updateApi apiPath r i w = (None, w)"
  by (simp add: updateApi_def Let_def)

theorem updateApi_filtered_noop_witness:
  "updateApi ''google/cloud/b/v1'' demo_calls 0 demo_world = (None, demo_world)"
  using updateApi_filtered_noop [of "''google/cloud/b/v1''" demo_world 0 demo_calls]
  by (simp add: demo_world_def demo_state_def)

subsection \<open>Resetting the API repository\<close>

lemma updateApi_reset:
  "EResetHard \<in> set (effects (snd (updateApi p r i w))) \<longleftrightarrow> EResetHard \<in> set (effects w)"
  by (auto simp: updateApi_def Let_def saveState_def commitAll_def setLastGeneratedCommit_def
       record_effect_def split: sum.splits option.splits prod.splits if_splits list.splits)

lemma updateApis_reset:
  "EResetHard \<in> set (effects (snd (updateApis p calls is w)))
     \<longleftrightarrow> EResetHard \<in> set (effects w)"
proof (induction "is" arbitrary: w)
  case Nil
  show ?case by simp
next
  case (Cons i rest)
  obtain x w' where u: "updateApi p (calls i) i w = (x, w')"
    by (cases "updateApi p (calls i) i w")
  have w': "EResetHard \<in> set (effects w') \<longleftrightarrow> EResetHard \<in> set (effects w)"
    using updateApi_reset [of p "calls i" i w] u by simp
  show ?case
  proof (cases x)
    case None
    then show ?thesis using u w' Cons.IH [of w'] by simp
  next
    case (Some e)
    then show ?thesis using u w' by simp
  qed
qed

lemma setupRun_Inr:
  assumes "setupRun f r w = Inr (h, w1)"
  shows "effects w1 = effects w \<and> openApiRepo f r = Inr h"
  using assms
  by (auto simp: setupRun_def loadState_def split: if_splits option.splits sum.splits)

lemma finishRun_reset:
  "EResetHard \<in> set (effects (snd (finishRun f r h w)))
     \<longleftrightarrow> h \<or> EResetHard \<in> set (effects w)"
  by (auto simp: finishRun_def Let_def record_effect_def split: sum.splits)

text \<open>
  C4 fails as stated: an API repository that was clean before the run is not reset when
  an API update fails, because the loop returns the error before the reset is reached.
  Here the repository is clean, the generation of the only API fails, the command returns
  that error, and no reset was made.
\<close>

theorem CmdUpdateApis_reset_on_failure_counterexample:
  "openApiRepo demo_flags demo_run = Inr True
   \<and> fst (CmdUpdateApis demo_flags demo_run demo_failing_plan demo_world)
       = Some (CallFailed ''generate'')
   \<and> EResetHard \<notin> set (effects
         (snd (CmdUpdateApis demo_flags demo_run demo_failing_plan demo_world)))"
  by (simp add: CmdUpdateApis_def demo_world_def demo_flags_def demo_run_def demo_calls_def
      demo_failing_calls_def demo_failing_plan_def demo_state_def
      demo_commits_def openApiRepo_def setupRun_def supportedLanguages_def chooseOutputDir_def
      openLanguageRepo_def loadState_def updateApi_def Let_def saveState_def commitAll_def
      setLastGeneratedCommit_def record_effect_def)

text \<open>
  C4, amended. \<open>openApiRepo\<close> returns \<open>Inr True\<close> exactly when the API repository
  was freshly cloned or reported clean before the run. The command resets it if and only
  if that is the case, the setup succeeds and every API update succeeds; in particular a
  repository that was dirty before the run is never reset, and neither is one whose run
  fails in the setup or in an API update.
\<close>

theorem CmdUpdateApis_reset_iff:
  assumes "EResetHard \<notin> set (effects w)"
  shows "EResetHard \<in> set (effects (snd (CmdUpdateApis f r calls w))) \<longleftrightarrow>
           openApiRepo f r = Inr True \<and>
           (\<exists>h w1. setupRun f r w = Inr (h, w1) \<and>
              fst (updateApis (flagAPIPath f) calls
                     [0 ..< length (ApiGenerationStates (repoState w1))] w1) = None)"
proof (cases "setupRun f r w")
  case (Inl e)
  then show ?thesis using assms by (simp add: CmdUpdateApis_def)
next
  case (Inr hw)
  obtain h w1 where hw: "hw = (h, w1)" by (cases hw)
  have s: "setupRun f r w = Inr (h, w1)" using Inr hw by simp
  have e1: "EResetHard \<notin> set (effects w1)" and o: "openApiRepo f r = Inr h"
    using setupRun_Inr [OF s] assms by simp_all
  let ?u = "updateApis (flagAPIPath f) calls
              [0 ..< length (ApiGenerationStates (repoState w1))] w1"
  obtain x w2 where u: "?u = (x, w2)" by (cases ?u)
  have e2: "EResetHard \<notin> set (effects w2)"
    using updateApis_reset [of "flagAPIPath f" calls
        "[0 ..< length (ApiGenerationStates (repoState w1))]" w1] u e1 by simp
  show ?thesis
  proof (cases x)
    case None
    then show ?thesis using s u o e2 finishRun_reset [of f r h w2]
      by (simp add: CmdUpdateApis_def)
  next
    case (Some e)
    then show ?thesis using s u o e2 by (simp add: CmdUpdateApis_def)
  qed
qed

theorem CmdUpdateApis_reset_iff_witness:
  "EResetHard \<notin> set (effects demo_world)
   \<and> openApiRepo demo_flags demo_run = Inr True
   \<and> EResetHard \<in> set (effects
         (snd (CmdUpdateApis demo_flags demo_run demo_plan demo_world)))"
  using CmdUpdateApis_reset_iff [of demo_world demo_flags demo_run demo_plan]
  by (simp add: CmdUpdateApis_def finishRun_def demo_world_def demo_flags_def demo_run_def
      demo_calls_def demo_plan_def demo_state_def demo_commits_def openApiRepo_def
      setupRun_def supportedLanguages_def chooseOutputDir_def
      openLanguageRepo_def loadState_def updateApi_def Let_def saveState_def commitAll_def
      setLastGeneratedCommit_def record_effect_def)


section \<open>Proofs: library selection and resolution\<close>

lemma prepareLibraries_none:
  "\<forall>lib \<in> set libs. \<not> shouldGenerate lib all n
     \<Longrightarrow> prepareLibraries cv l d all n libs = Inr ([], d)"
  by (induction libs) simp_all

lemma nameConfigured_iff: "nameConfigured n libs \<longleftrightarrow> (\<exists>lib \<in> set libs. Name lib = n)"
  by (induction libs) auto

text \<open>
  C8. Once the sources are loaded (a configuration without sources fails before any
  library is looked at), \<open>runGenerate\<close> called with a library name (and without
  \<open>--all\<close>) fails with the skip-generate error when the name is configured and
  every library of that name has \<open>skip_generate\<close> set, and with the library-not-found
  error when no configured library has the name; the two errors are different values.
\<close>

theorem runGenerate_skip_generate_or_not_found:
  assumes "LoadSources r cfg = Inr dir"
  shows "((\<exists>lib \<in> set (Libraries cfg). Name lib = n)
           \<and> (\<forall>lib \<in> set (Libraries cfg). Name lib = n \<longrightarrow> SkipGenerate lib)
          \<longrightarrow> runGenerate cv r cfg False n = Some (ErrSkipGenerate n))
       \<and> ((\<forall>lib \<in> set (Libraries cfg). Name lib \<noteq> n)
          \<longrightarrow> runGenerate cv r cfg False n = Some (ErrLibraryNotFound n))
       \<and> ErrSkipGenerate n \<noteq> ErrLibraryNotFound n"
proof -
  have none: "prepareLibraries cv (Language cfg) (Default_cfg cfg) False n (Libraries cfg)
                = Inr ([], Default_cfg cfg)"
    if "\<forall>lib \<in> set (Libraries cfg). Name lib = n \<longrightarrow> SkipGenerate lib"
    using that by (intro prepareLibraries_none) (auto simp: shouldGenerate_def)
  have "Sources cfg \<noteq> None"
    using assms by (auto simp: LoadSources_def split: option.splits)
  then show ?thesis
    using assms none by (auto simp: runGenerate_def nameConfigured_iff)
qed

theorem runGenerate_skip_generate_or_not_found_witness:
  "runGenerate demo_conventions demo_gen_calls demo_config False ''secretmanager''
     = Some (ErrSkipGenerate ''secretmanager'')
   \<and> runGenerate demo_conventions demo_gen_calls demo_config False ''secretmanagr''
     = Some (ErrLibraryNotFound ''secretmanagr'')"
  using runGenerate_skip_generate_or_not_found [of demo_gen_calls demo_config "''/googleapis''"
           "''secretmanager''" demo_conventions]
        runGenerate_skip_generate_or_not_found [of demo_gen_calls demo_config "''/googleapis''"
           "''secretmanagr''" demo_conventions]
  by (simp add: demo_config_def demo_library_def LoadSources_def languageRust_def
      languageDart_def)

lemma Output_fillDefaults:
  "Output (fst (fillDefaults lib (Some d)))
     = (if Output lib = [] then Output_d d else Output lib)"
  by (simp add: fillDefaults_def Let_def fillRust_def fillDart_def fillPython_def fillJava_def
      split: option.splits prod.splits)

lemma fillLibraryDefaults_eq:
  "fillLibraryDefaults cv language filled =
     Inr (if language = languageGo then golang_Fill cv (fst filled) else fst filled,
          snd filled)"
  by (simp add: fillLibraryDefaults_def split: prod.splits)

text \<open>
  With a default section \<open>d\<close>, resolution is as the specification describes it. For a
  library with no explicit output path, \<open>applyDefaults\<close> fails with the
  veneer-requires-output error when the library is a veneer (with or without a default
  section). Otherwise (for Go, with a \<open>golang.Fill\<close> that leaves the output alone) it
  succeeds, and the output is \<open>defaultOutput\<close> applied to the language, the library
  name, the first API path and the default output root; should that convention give the
  empty string, \<open>fillDefaults\<close> stores the default output root itself.
\<close>

lemma applyDefaults_output_with_defaults:
  assumes "Output lib = []"
  shows "(Veneer lib \<longrightarrow>
            applyDefaults cv language lib defaults = Inl (ErrVeneerRequiresOutput (Name lib)))
       \<and> (\<not> Veneer lib \<and> defaults = Some d
            \<and> (language = languageGo \<longrightarrow> (\<forall>l. Output (golang_Fill cv l) = Output l)) \<longrightarrow>
            (\<exists>lib' d'. applyDefaults cv language lib defaults = Inr (lib', d')
               \<and> Output lib' =
                   (let derived = defaultOutput cv language (Name lib)
                                    (firstAPIPath cv language lib) (Output_d d)
                    in if derived = [] then Output_d d else derived)))"
  using assms
  by (auto simp: applyDefaults_def Let_def fillLibraryDefaults_eq Output_fillDefaults
      firstAPIPath_def split: list.splits)

lemma applyDefaults_output_with_defaults_example:
  "\<exists>lib' d'. applyDefaults demo_conventions ''rust'' demo_library (Some demo_default)
                = Inr (lib', d')
      \<and> Output lib' = ''packages/google/cloud/secretmanager/v1''"
  using applyDefaults_output_with_defaults [of demo_library demo_conventions "''rust''"
          "Some demo_default" demo_default]
  by (simp add: demo_library_def demo_conventions_def demo_default_def defaultOutput_def
      firstAPIPath_def languageDart_def languageRust_def languageGo_def)

text \<open>
  C9. The second half of the claim fails on a configuration without a default section
  (the section is optional): for every library with no explicit output path that is not a
  veneer, \<open>applyDefaults\<close> reads \<open>defaults.Output\<close> through the nil pointer and
  panics, whatever the language, instead of deriving the output with an empty default
  output root, as \<open>libraryOutput\<close> does.
\<close>

theorem applyDefaults_without_defaults_panics:
  "applyDefaults cv language (lib\<lparr>Output := [], Veneer := False\<rparr>) None
     = Inl PanicNilDereference"
  by (simp add: applyDefaults_def Let_def)

section \<open>Proofs: the keep-list cleaner\<close>

subsection \<open>Entries\<close>

lemma map_of_upd_entry:
  "map_of (upd_entry c g es) k = (if k = c then map_option g (map_of es c) else map_of es k)"
  by (induction c g es rule: upd_entry.induct) auto

lemma upd_entry_cong:
  "map_of es c = Some x \<Longrightarrow> g x = h x \<Longrightarrow> upd_entry c g es = upd_entry c h es"
  by (induction c g es rule: upd_entry.induct) (auto split: if_splits)

lemma upd_entry_id:
  "map_of es c = Some x \<Longrightarrow> g x = x \<Longrightarrow> upd_entry c g es = es"
  by (induction c g es rule: upd_entry.induct) (auto split: if_splits)

lemma upd_entry_twice:
  "upd_entry c g (upd_entry c h es) = upd_entry c (\<lambda>x. g (h x)) es"
  by (induction c h es rule: upd_entry.induct) auto

lemma map_of_mid: "n \<notin> fst ` set xs \<Longrightarrow> map_of (xs @ (n, c) # es) n = Some c"
  by (induction xs) auto

lemma upd_entry_mid:
  "n \<notin> fst ` set xs \<Longrightarrow> upd_entry n g (xs @ (n, c) # es) = xs @ (n, g c) # es"
  by (induction xs) auto

lemma del_entry_mid: "n \<notin> fst ` set xs \<Longrightarrow> del_entry n (xs @ (n, c) # es) = xs @ es"
  by (induction xs) auto

subsection \<open>lookup and replace\<close>

lemma lookup_append:
  "lookup (p @ q) t = (case lookup p t of Inl e \<Rightarrow> Inl e | Inr u \<Rightarrow> lookup q u)"
proof (induction p arbitrary: t)
  case Nil
  show ?case by simp
next
  case (Cons c cs)
  show ?case
  proof (cases t)
    case File
    then show ?thesis by simp
  next
    case (Dir es)
    then show ?thesis using Cons.IH by (simp split: option.splits)
  qed
qed

lemma lookup_replace:
  "lookup p t = Inr u \<Longrightarrow> lookup p (replace p new t) = Inr new"
proof (induction p arbitrary: t)
  case Nil
  show ?case by simp
next
  case (Cons c cs)
  show ?case
  proof (cases t)
    case File
    then show ?thesis using Cons.prems by simp
  next
    case (Dir es)
    then show ?thesis using Cons
      by (auto simp: map_of_upd_entry split: option.splits)
  qed
qed

lemma replace_absorb:
  "replace p new (replace (p @ q) mid t) = replace p new t"
proof (induction p arbitrary: t)
  case Nil
  show ?case by simp
next
  case (Cons c cs)
  show ?case
  proof (cases t)
    case File
    then show ?thesis by simp
  next
    case (Dir es)
    then show ?thesis using Cons.IH by (simp add: upd_entry_twice)
  qed
qed

lemma replace_twice: "replace p new (replace p mid t) = replace p new t"
  using replace_absorb [of p new "[]" mid t] by simp

lemma replace_same: "lookup p t = Inr u \<Longrightarrow> replace p u t = t"
proof (induction p arbitrary: t)
  case Nil
  then show ?case by simp
next
  case (Cons c cs)
  show ?case
  proof (cases t)
    case File
    then show ?thesis by simp
  next
    case (Dir es)
    then obtain x where x: "map_of es c = Some x" "lookup cs x = Inr u"
      using Cons.prems by (auto split: option.splits)
    then show ?thesis using Dir Cons.IH [of x] by (simp add: upd_entry_id)
  qed
qed

lemma replace_append:
  "lookup p t = Inr u \<Longrightarrow> replace (p @ q) new t = replace p (replace q new u) t"
proof (induction p arbitrary: t)
  case Nil
  then show ?case by simp
next
  case (Cons c cs)
  show ?case
  proof (cases t)
    case File
    then show ?thesis by simp
  next
    case (Dir es)
    then obtain x where x: "map_of es c = Some x" "lookup cs x = Inr u"
      using Cons.prems by (auto split: option.splits)
    have "upd_entry c (\<lambda>y. replace (cs @ q) new y) es
            = upd_entry c (\<lambda>y. replace cs (replace q new u) y) es"
      using x Cons.IH [of x] by (intro upd_entry_cong) auto
    then show ?thesis using Dir by simp
  qed
qed

lemma lookup_child:
  "lookup p t = Inr (Dir (xs @ (n, c) # es)) \<Longrightarrow> n \<notin> fst ` set xs
     \<Longrightarrow> lookup (p @ [n]) t = Inr c"
  using map_of_mid [of n xs c es] by (simp add: lookup_append del: map_of_append)

lemma replace_child:
  "lookup p t = Inr (Dir (xs @ (n, c) # es)) \<Longrightarrow> n \<notin> fst ` set xs
     \<Longrightarrow> replace (p @ [n]) new t = replace p (Dir (xs @ (n, new) # es)) t"
  by (simp add: replace_append upd_entry_mid)

lemma os_Remove_child:
  assumes "lookup p t = Inr (Dir (xs @ (n, c) # es))" and "n \<notin> fst ` set xs"
  shows "os_Remove (p @ [n]) (Inr t) =
           (case c of
              File \<Rightarrow> Inr (Inr (replace p (Dir (xs @ es)) t))
            | Dir [] \<Rightarrow> Inr (Inr (replace p (Dir (xs @ es)) t))
            | Dir (e # es') \<Rightarrow> Inl ENOTEMPTY)"
proof -
  have m: "map_of (xs @ (n, c) # es) n = Some c"
    using assms(2) by (rule map_of_mid)
  have d: "del_entry n (xs @ (n, c) # es) = xs @ es"
    using assms(2) by (rule del_entry_mid)
  show ?thesis
    using assms(1) m d
    by (auto simp: os_Remove_def simp del: map_of_append split: node.splits list.splits)
qed

subsection \<open>Names\<close>

lemma sweepFiles_names: "fst ` set (sweepFiles K p es) \<subseteq> fst ` set es"
  by (induction K p es rule: sweepFiles.induct) auto

lemma sweepFiles_distinct: "distinct (map fst es) \<Longrightarrow> distinct (map fst (sweepFiles K p es))"
proof (induction K p es rule: sweepFiles.induct)
  case (1 K p)
  show ?case by simp
next
  case (2 K p n es)
  then show ?case using sweepFiles_names [of K p es] by auto
next
  case (3 K p n cs es)
  then show ?case using sweepFiles_names [of K p es] by auto
qed

lemma sweepFiles_wfs: "wf_entries es \<Longrightarrow> wf_entries (sweepFiles K p es)"
  by (induction K p es rule: sweepFiles.induct) (auto simp: sweepFiles_distinct)

lemma pruneDirs_names: "fst ` set (pruneDirs K p es) \<subseteq> fst ` set es"
  by (induction K p es rule: pruneDirs.induct) (auto simp: Let_def split: if_splits)

lemma pruneDirs_distinct: "distinct (map fst es) \<Longrightarrow> distinct (map fst (pruneDirs K p es))"
proof (induction K p es rule: pruneDirs.induct)
  case (1 K p)
  show ?case by simp
next
  case (2 K p n es)
  then show ?case using pruneDirs_names [of K p es] by auto
next
  case (3 K p n cs es)
  then show ?case using pruneDirs_names [of K p es] by (auto simp: Let_def)
qed

lemma pruneDirs_wfs: "wf_entries es \<Longrightarrow> wf_entries (pruneDirs K p es)"
  by (induction K p es rule: pruneDirs.induct) (auto simp: pruneDirs_distinct Let_def)

subsection \<open>The first pass\<close>

lemma removeUnkept_dir:
  "removeUnkept K rel (Some \<lparr>Name_entry = n, IsDir = True\<rparr>) None s
     = (if skippedDir n then (SkipDir, s) else (Continue, s))"
  by (simp add: removeUnkept_def)

lemma removeUnkept_file:
  "removeUnkept K rel (Some \<lparr>Name_entry = n, IsDir = False\<rparr>) None s
     = (if keptFile K rel then (Continue, s)
        else case os_Remove rel s of
               Inl e \<Rightarrow> (Fail (OsError e), s)
             | Inr s' \<Rightarrow> (Continue, s'))"
  by (simp add: removeUnkept_def)

lemma collectDirs_dir:
  "collectDirs rel (Some \<lparr>Name_entry = n, IsDir = True\<rparr>) None dirs
     = (if skippedDir n then (SkipDir, dirs)
        else if rel \<noteq> [] then (Continue, dirs @ [rel]) else (Continue, dirs))"
  by (simp add: collectDirs_def)

lemma collectDirs_file:
  "collectDirs rel (Some \<lparr>Name_entry = n, IsDir = False\<rparr>) None dirs = (Continue, dirs)"
  by (simp add: collectDirs_def)

lemma walk_sweep:
  "lookup p t = Inr (Dir (xs @ ys)) \<Longrightarrow> distinct (map fst (xs @ ys)) \<Longrightarrow> wf_entries ys \<Longrightarrow>
   walkEntries (removeUnkept K) p ys (Inr t)
     = (Continue, Inr (replace p (Dir (xs @ sweepFiles K p ys)) t))"
proof (induction K p ys arbitrary: xs t rule: sweepFiles.induct)
  case (1 K p)
  then show ?case by (simp add: replace_same)
next
  case (2 K p n es)
  have nx: "n \<notin> fst ` set xs" using "2.prems"(2) by auto
  have w: "wf_entries es" using "2.prems"(3) by simp
  show ?case
  proof (cases "keptFile K (p @ [n])")
    case True
    have l: "lookup p t = Inr (Dir ((xs @ [(n, File)]) @ es))" using "2.prems"(1) by simp
    have d: "distinct (map fst ((xs @ [(n, File)]) @ es))" using "2.prems"(2) by simp
    show ?thesis
      using True "2.IH" [OF l d w] by (simp add: removeUnkept_file)
  next
    case False
    let ?t1 = "replace p (Dir (xs @ es)) t"
    have r: "os_Remove (p @ [n]) (Inr t) = Inr (Inr ?t1)"
      using os_Remove_child [OF "2.prems"(1) nx] by simp
    have l1: "lookup p ?t1 = Inr (Dir (xs @ es))"
      using "2.prems"(1) by (rule lookup_replace)
    have d1: "distinct (map fst (xs @ es))" using "2.prems"(2) by simp
    show ?thesis
      using False r "2.IH" [OF l1 d1 w]
      by (simp add: removeUnkept_file replace_twice)
  qed
next
  case (3 K p n cs es)
  have nx: "n \<notin> fst ` set xs" using "3.prems"(2) by auto
  have w: "wf_entries es" and wc: "wf_entries cs" and dc: "distinct (map fst cs)"
    using "3.prems"(3) by simp_all
  show ?case
  proof (cases "skippedDir n")
    case True
    have l: "lookup p t = Inr (Dir ((xs @ [(n, Dir cs)]) @ es))" using "3.prems"(1) by simp
    have d: "distinct (map fst ((xs @ [(n, Dir cs)]) @ es))" using "3.prems"(2) by simp
    show ?thesis
      using True "3.IH"(2) [OF l d w] by (simp add: removeUnkept_dir)
  next
    case False
    let ?cs' = "sweepFiles K (p @ [n]) cs"
    let ?t1 = "replace p (Dir (xs @ (n, Dir ?cs') # es)) t"
    have lc: "lookup (p @ [n]) t = Inr (Dir ([] @ cs))"
      using lookup_child [OF "3.prems"(1) nx] by simp
    have dc': "distinct (map fst ([] @ cs))" using dc by simp
    have inner: "walkEntries (removeUnkept K) (p @ [n]) cs (Inr t)
                   = (Continue, Inr ?t1)"
      using "3.IH"(1) [OF False lc dc' wc] replace_child [OF "3.prems"(1) nx] by simp
    have l1: "lookup p ?t1 = Inr (Dir ((xs @ [(n, Dir ?cs')]) @ es))"
      using lookup_replace [OF "3.prems"(1)] by simp
    have d1: "distinct (map fst ((xs @ [(n, Dir ?cs')]) @ es))" using "3.prems"(2) by simp
    show ?thesis
      using False inner "3.IH"(2) [OF l1 d1 w]
      by (simp add: removeUnkept_dir replace_twice)
  qed
qed

subsection \<open>The second pass\<close>

lemma walk_listDirs:
  "walkEntries collectDirs p ys acc = (Continue, acc @ listDirs p ys)"
  by (induction p ys arbitrary: acc rule: listDirs.induct)
     (simp_all add: collectDirs_dir collectDirs_file)

lemma removeDirs_append:
  "removeDirs K (ds @ ds') s = removeDirs K ds' (removeDirs K ds s)"
  by (induction K ds s rule: removeDirs.induct) (simp_all split: sum.splits)

lemma removeDirs_prune:
  "lookup p t = Inr (Dir (xs @ ys)) \<Longrightarrow> distinct (map fst (xs @ ys)) \<Longrightarrow> wf_entries ys \<Longrightarrow>
   removeDirs K (rev (listDirs p ys)) (Inr t)
     = Inr (replace p (Dir (xs @ pruneDirs K p ys)) t)"
proof (induction K p ys arbitrary: xs t rule: pruneDirs.induct)
  case (1 K p)
  then show ?case by (simp add: replace_same)
next
  case (2 K p n es)
  have l: "lookup p t = Inr (Dir ((xs @ [(n, File)]) @ es))" using "2.prems"(1) by simp
  have d: "distinct (map fst ((xs @ [(n, File)]) @ es))" using "2.prems"(2) by simp
  have w: "wf_entries es" using "2.prems"(3) by simp
  show ?case using "2.IH" [OF l d w] by simp
next
  case (3 K p n cs es)
  have nx: "n \<notin> fst ` set xs" using "3.prems"(2) by auto
  have w: "wf_entries es" and wc: "wf_entries cs" and dc: "distinct (map fst cs)"
    using "3.prems"(3) by simp_all
  have l: "lookup p t = Inr (Dir ((xs @ [(n, Dir cs)]) @ es))" using "3.prems"(1) by simp
  have d: "distinct (map fst ((xs @ [(n, Dir cs)]) @ es))" using "3.prems"(2) by simp
  let ?pes = "pruneDirs K p es"
  let ?t1 = "replace p (Dir (xs @ (n, Dir cs) # ?pes)) t"
  have stepA: "removeDirs K (rev (listDirs p es)) (Inr t) = Inr ?t1"
    using "3.IH"(2) [OF l d w] by simp
  show ?case
  proof (cases "skippedDir n")
    case True
    then show ?thesis using stepA by simp
  next
    case False
    let ?cs' = "pruneDirs K (p @ [n]) cs"
    let ?t2 = "replace p (Dir (xs @ (n, Dir ?cs') # ?pes)) t"
    have l1: "lookup p ?t1 = Inr (Dir (xs @ (n, Dir cs) # ?pes))"
      using "3.prems"(1) by (rule lookup_replace)
    have lc: "lookup (p @ [n]) ?t1 = Inr (Dir ([] @ cs))"
      using lookup_child [OF l1 nx] by simp
    have dc': "distinct (map fst ([] @ cs))" using dc by simp
    have stepB: "removeDirs K (rev (listDirs (p @ [n]) cs)) (Inr ?t1) = Inr ?t2"
      using "3.IH"(1) [OF False lc dc' wc] replace_child [OF l1 nx]
      by (simp add: replace_twice)
    have l2: "lookup p ?t2 = Inr (Dir (xs @ (n, Dir ?cs') # ?pes))"
      using "3.prems"(1) by (rule lookup_replace)
    have stepC: "os_Remove (p @ [n]) (Inr ?t2) =
                   (if ?cs' = [] then Inr (Inr (replace p (Dir (xs @ ?pes)) t))
                    else Inl ENOTEMPTY)"
      using os_Remove_child [OF l2 nx] by (simp add: replace_twice split: list.splits)
    show ?thesis
      using False stepA stepB stepC by (simp add: removeDirs_append Let_def)
  qed
qed

subsection \<open>clean on a directory\<close>

lemma clean_Dir:
  assumes "wf_node (Dir es)"
  shows "clean rootName K (Inr (Dir es)) = (None, Inr (Dir (cleaned rootName K es)))"
proof (cases "skippedDir rootName")
  case True
  then show ?thesis
    by (simp add: clean_def WalkDir_def removeUnkept_dir collectDirs_dir cleaned_def)
next
  case False
  let ?es1 = "sweepFiles K [] es"
  have d: "distinct (map fst ([] @ es))" and w: "wf_entries es" using assms by simp_all
  have p1: "walkEntries (removeUnkept K) [] es (Inr (Dir es)) = (Continue, Inr (Dir ?es1))"
    using walk_sweep [of "[]" "Dir es" "[]" es K] d w by simp
  have d1: "distinct (map fst ([] @ ?es1))" and w1: "wf_entries ?es1"
    using assms by (simp_all add: sweepFiles_distinct sweepFiles_wfs)
  have p2: "removeDirs K (rev (listDirs [] ?es1)) (Inr (Dir ?es1))
              = Inr (Dir (pruneDirs K [] ?es1))"
    using removeDirs_prune [of "[]" "Dir ?es1" "[]" ?es1 K] d1 w1 by simp
  show ?thesis
    using False p1 p2
    by (simp add: clean_def WalkDir_def removeUnkept_dir collectDirs_dir walk_listDirs
        cleaned_def)
qed

lemma cleaned_wf: "wf_node (Dir es) \<Longrightarrow> wf_node (Dir (cleaned rootName K es))"
  by (simp add: cleaned_def sweepFiles_distinct sweepFiles_wfs pruneDirs_distinct pruneDirs_wfs)

subsection \<open>Idempotence of the structural description\<close>

lemma swept_sweepFiles: "swept K p (sweepFiles K p es)"
  by (induction K p es rule: sweepFiles.induct) auto

lemma sweepFiles_swept: "swept K p es \<Longrightarrow> sweepFiles K p es = es"
  by (induction K p es rule: sweepFiles.induct) auto

lemma swept_pruneDirs: "swept K p es \<Longrightarrow> swept K p (pruneDirs K p es)"
  by (induction K p es rule: pruneDirs.induct) (auto simp: Let_def)

lemma pruneDirs_idem: "pruneDirs K p (pruneDirs K p es) = pruneDirs K p es"
  by (induction K p es rule: pruneDirs.induct) (auto simp: Let_def)

lemma cleaned_idem: "cleaned rootName K (cleaned rootName K es) = cleaned rootName K es"
  by (simp add: cleaned_def sweepFiles_swept swept_pruneDirs swept_sweepFiles pruneDirs_idem)

subsection \<open>The keep set\<close>

lemma checkKeep_keepSet:
  "checkKeep dir fs keep K0 = Inr K \<Longrightarrow>
     K = foldl (\<lambda>m k. m(Rel_path dir (Join_path dir k) \<mapsto> True)) K0 keep"
  by (induction keep arbitrary: K0) (auto simp: Let_def split: if_splits)

lemma checkKeep_same:
  "checkKeep dir fs keep K0 = Inr K \<Longrightarrow> checkKeep dir fs' keep K0 = Inr K' \<Longrightarrow> K' = K"
  using checkKeep_keepSet by blast

lemma checkAndClean_missing:
  "target fs = Inl e \<Longrightarrow>
     checkAndClean dir keep fs
       = (Some (if e = ENOENT then OsError ENOENT else CannotAccess e), fs)"
  by (simp add: checkAndClean_def check_def clean_def WalkDir_def removeUnkept_def)

lemma checkAndClean_file:
  "target fs = Inr File \<Longrightarrow> checkAndClean dir keep fs = (Some NotADirectory, fs)"
  by (simp add: checkAndClean_def check_def)

lemma checkAndClean_dir:
  "target fs = Inr (Dir es) \<Longrightarrow> wf_node (Dir es) \<Longrightarrow>
     checkAndClean dir keep fs =
       (case checkKeep dir fs keep Map.empty of
          Inl e \<Rightarrow> (Some e, fs)
        | Inr K \<Rightarrow> (None, fs\<lparr>target := Inr (Dir (cleaned (baseName dir) K es))\<rparr>))"
  by (simp add: checkAndClean_def check_def clean_Dir split: sum.splits)

text \<open>
  C7. \<open>checkAndClean\<close> is idempotent: run a second time with the same directory
  and keep list, it leaves the file system exactly as the first run left it, so the
  second run deletes nothing. This holds whether the first run succeeds or fails.
\<close>

theorem checkAndClean_idempotent:
  assumes "wf_target (target fs)"
  shows "snd (checkAndClean dir keep (snd (checkAndClean dir keep fs)))
           = snd (checkAndClean dir keep fs)"
proof (cases "target fs")
  case (Inl e)
  then show ?thesis by (simp add: checkAndClean_missing)
next
  case (Inr t)
  show ?thesis
  proof (cases t)
    case File
    then show ?thesis using Inr by (simp add: checkAndClean_file)
  next
    case (Dir es)
    have w: "wf_node (Dir es)" using assms Inr Dir by (simp add: wf_target_def)
    have tg: "target fs = Inr (Dir es)" using Inr Dir by simp
    show ?thesis
    proof (cases "checkKeep dir fs keep Map.empty")
      case (Inl e)
      then show ?thesis using checkAndClean_dir [OF tg w] by simp
    next
      case K: (Inr K)
      let ?es' = "cleaned (baseName dir) K es"
      let ?fs' = "fs\<lparr>target := Inr (Dir ?es')\<rparr>"
      have first: "checkAndClean dir keep fs = (None, ?fs')"
        using checkAndClean_dir [OF tg w] K by simp
      have tg': "target ?fs' = Inr (Dir ?es')" by simp
      have w': "wf_node (Dir ?es')" using w by (rule cleaned_wf)
      show ?thesis
      proof (cases "checkKeep dir ?fs' keep Map.empty")
        case (Inl e)
        then show ?thesis using first checkAndClean_dir [OF tg' w'] by simp
      next
        case K': (Inr K')
        have "K' = K" using K K' by (rule checkKeep_same)
        then show ?thesis
          using first checkAndClean_dir [OF tg' w'] K' by (simp add: cleaned_idem)
      qed
    qed
  qed
qed

theorem checkAndClean_idempotent_witness:
  "wf_target (target demo_fs)
   \<and> target (snd (checkAndClean [''out''] demo_keep demo_fs))
       = Inr (Dir [(''.git'', Dir [(''config'', File)]), (''README.md'', File),
                   (''librarian.yaml'', File),
                   (''src'', Dir [(''keep'', Dir [(''c.go'', File)])])])
   \<and> snd (checkAndClean [''out''] demo_keep (snd (checkAndClean [''out''] demo_keep demo_fs)))
       = snd (checkAndClean [''out''] demo_keep demo_fs)"
proof -
  have h: "wf_target (target demo_fs)" by code_simp
  have e: "target (snd (checkAndClean [''out''] demo_keep demo_fs))
       = Inr (Dir [(''.git'', Dir [(''config'', File)]), (''README.md'', File),
                   (''librarian.yaml'', File),
                   (''src'', Dir [(''keep'', Dir [(''c.go'', File)])])])" by code_simp
  show ?thesis
    using h e checkAndClean_idempotent [OF h, of "[''out'']" demo_keep] by simp
qed

subsection \<open>Clean paths\<close>









subsection \<open>Kept entries survive\<close>










subsection \<open>A target directory that does not exist\<close>

text \<open>
  C5. For a target directory that does not exist, \<open>check\<close> returns no error and the
  nil map, and \<open>checkAndClean\<close> goes on to \<open>clean\<close>: \<open>filepath.WalkDir\<close> hands
  the failed \<open>Lstat\<close> of the root to the callback, which returns it. So
  \<open>checkAndClean\<close> deletes nothing, but returns the error \<open>ENOENT\<close>, for every keep
  list.
\<close>

theorem checkAndClean_missing_dir_fails:
  "check dir keep \<lparr>target = Inl ENOENT, outside = out\<rparr> = Inr Map.empty
   \<and> checkAndClean dir keep \<lparr>target = Inl ENOENT, outside = out\<rparr>
       = (Some (OsError ENOENT), \<lparr>target = Inl ENOENT, outside = out\<rparr>)"
  by (simp add: checkAndClean_def check_def clean_def WalkDir_def removeUnkept_def)

end
